theory Spec2Isabelle
  imports Complex_Main "HOL-Library.Sublist" "HOL-Library.Multiset" "HOL-Library.Product_Lexorder"
    "HOL-Library.Log_Nat"
begin

section \<open>Values of the program\<close>

subsection \<open>Text\<close>

text \<open>
  A Python \<^verbatim>\<open>str\<close> is a sequence of Unicode code points, so a text is a list of
  naturals. \<open>lit\<close> reads an ASCII literal; a letter with an accent is written as its
  code point (193 for the capital A with acute of \<^verbatim>\<open>'CALCULO'\<close>, and so on).
\<close>

type_synonym pystr = "nat list"

definition lit :: "string \<Rightarrow> pystr" where
  "lit s = map of_char s"

text \<open>
  \<^verbatim>\<open>s.startswith(k)\<close> and \<^verbatim>\<open>k in s\<close> (a contiguous occurrence of \<open>k\<close> in \<open>s\<close>).
\<close>

fun startswith :: "pystr \<Rightarrow> pystr \<Rightarrow> bool" where
  "startswith s [] = True"
| "startswith [] (k # ks) = False"
| "startswith (c # s) (k # ks) = (c = k \<and> startswith s ks)"

fun contains :: "pystr \<Rightarrow> pystr \<Rightarrow> bool" where
  "contains k [] = (k = [])"
| "contains k (c # s) = (startswith (c # s) k \<or> contains k s)"

text \<open>
  \<^verbatim>\<open>str.upper\<close> belongs to the language, not to the repository, and covers all of
  Unicode. The classifier below therefore takes the upper-casing function as its first
  argument, and what is proved of it holds for any such function. \<open>upper_latin1\<close> is
  \<^verbatim>\<open>str.upper\<close> on the code points below 256 (Basic Latin and Latin-1 Supplement: the
  sharp s becomes \<^verbatim>\<open>SS\<close>, the micro sign and the y with diaeresis leave the block); it
  is used to evaluate the classifier on concrete rows written in those code points, and
  leaves every other code point as it is.
\<close>

definition upper_cp :: "nat \<Rightarrow> nat list" where
  "upper_cp c =
     (if 97 \<le> c \<and> c \<le> 122 then [c - 32]
      else if c = 181 then [924]
      else if c = 223 then [83, 83]
      else if 224 \<le> c \<and> c \<le> 254 \<and> c \<noteq> 247 then [c - 32]
      else if c = 255 then [376]
      else [c])"

definition upper_latin1 :: "pystr \<Rightarrow> pystr" where
  "upper_latin1 s = concat (map upper_cp s)"

subsection \<open>Numbers\<close>

text \<open>
  A \<^verbatim>\<open>float64\<close> is a finite number, an infinity or \<^verbatim>\<open>NaN\<close>. A finite one is
  written \<open>Fin x\<close> with a real \<open>x\<close> and stands for the double nearest to \<open>x\<close>: a
  decimal of the source or of the file stands for the double it is read as, and a
  double stands for itself. Every operation takes the doubles that its operands stand
  for and rounds its exact result to the nearest double, a tie going to the even
  neighbour, and to an infinity beyond the range of the format.
\<close>

datatype pyfloat = Fin real | PInf | NInf | NaN

fun isfinite :: "pyfloat \<Rightarrow> bool" where
  "isfinite (Fin x) = True"
| "isfinite PInf = False"
| "isfinite NInf = False"
| "isfinite NaN = False"

fun isnan :: "pyfloat \<Rightarrow> bool" where
  "isnan NaN = True"
| "isnan (Fin x) = False"
| "isnan PInf = False"
| "isnan NInf = False"

text \<open>
  Rounding to the nearest integer, a tie going to the even neighbour
  (\<^verbatim>\<open>rint\<close>), and dropping the fraction (towards zero).
\<close>

definition rint :: "real \<Rightarrow> int" where
  "rint x =
     (let f = \<lfloor>x\<rfloor> in
      if x - of_int f < 1 / 2 then f
      else if 1 / 2 < x - of_int f then f + 1
      else if even f then f else f + 1)"

definition trunc :: "real \<Rightarrow> int" where
  "trunc x = (if 0 \<le> x then \<lfloor>x\<rfloor> else \<lceil>x\<rceil>)"

text \<open>
  The double nearest to a real. \<open>expo x\<close> is the binary exponent of \<open>x \<noteq> 0\<close>, the
  \<open>e\<close> with \<open>2 powi e \<le> \<bar>x\<bar>\<close> and \<open>\<bar>x\<bar> < 2 powi (e + 1)\<close>, read off the number of bits
  of the integer part of \<open>\<bar>x\<bar>\<close> (of \<open>1 / \<bar>x\<bar>\<close> below 1). Doubles have 53 significant
  bits, so around \<open>x\<close> they are the multiples of \<open>2 powi (expo x - 52)\<close>, and of
  \<open>2 powi (- 1074)\<close> in the subnormal range.
\<close>

definition expo :: "real \<Rightarrow> int" where
  "expo x = (if 1 \<le> \<bar>x\<bar> then bitlen \<lfloor>\<bar>x\<bar>\<rfloor> - 1 else - bitlen (\<lceil>1 / \<bar>x\<bar>\<rceil> - 1))"

definition ulp_exp :: "real \<Rightarrow> int" where
  "ulp_exp x = max (expo x - 52) (- 1074)"

definition double :: "real \<Rightarrow> real" where
  "double x = (if x = 0 then 0 else of_int (rint (x / 2 powi ulp_exp x)) * 2 powi ulp_exp x)"

text \<open>The infinity (or \<^verbatim>\<open>NaN\<close>) that an overflowing operation of sign \<open>s\<close> yields.\<close>

definition inf_of_sign :: "real \<Rightarrow> pyfloat" where
  "inf_of_sign s = (if 0 < s then PInf else if s < 0 then NInf else NaN)"

text \<open>The float that an exact result is rounded to.\<close>

definition fl :: "real \<Rightarrow> pyfloat" where
  "fl x = (if 2 ^ 1024 \<le> \<bar>double x\<bar> then inf_of_sign x else Fin (double x))"

fun fadd :: "pyfloat \<Rightarrow> pyfloat \<Rightarrow> pyfloat" where
  "fadd (Fin x) (Fin y) = fl (double x + double y)"
| "fadd (Fin x) PInf = PInf"
| "fadd (Fin x) NInf = NInf"
| "fadd PInf (Fin y) = PInf"
| "fadd PInf PInf = PInf"
| "fadd NInf (Fin y) = NInf"
| "fadd NInf NInf = NInf"
| "fadd PInf NInf = NaN"
| "fadd NInf PInf = NaN"
| "fadd NaN b = NaN"
| "fadd a NaN = NaN"

fun fsub :: "pyfloat \<Rightarrow> pyfloat \<Rightarrow> pyfloat" where
  "fsub (Fin x) (Fin y) = fl (double x - double y)"
| "fsub (Fin x) PInf = NInf"
| "fsub (Fin x) NInf = PInf"
| "fsub PInf (Fin y) = PInf"
| "fsub PInf NInf = PInf"
| "fsub NInf (Fin y) = NInf"
| "fsub NInf PInf = NInf"
| "fsub PInf PInf = NaN"
| "fsub NInf NInf = NaN"
| "fsub NaN b = NaN"
| "fsub a NaN = NaN"

fun fmul :: "pyfloat \<Rightarrow> pyfloat \<Rightarrow> pyfloat" where
  "fmul (Fin x) (Fin y) = fl (double x * double y)"
| "fmul (Fin x) PInf = inf_of_sign (double x)"
| "fmul (Fin x) NInf = inf_of_sign (- double x)"
| "fmul PInf (Fin y) = inf_of_sign (double y)"
| "fmul NInf (Fin y) = inf_of_sign (- double y)"
| "fmul PInf PInf = PInf"
| "fmul NInf NInf = PInf"
| "fmul PInf NInf = NInf"
| "fmul NInf PInf = NInf"
| "fmul NaN b = NaN"
| "fmul a NaN = NaN"

text \<open>
  True division of arrays: a zero divisor raises nothing, it gives an infinity of the
  dividend's sign, or \<^verbatim>\<open>NaN\<close> for \<^verbatim>\<open>0 / 0\<close>. (The divisors of this program are
  integers converted to floats, so a zero divisor is the positive zero.)
\<close>

fun fdiv :: "pyfloat \<Rightarrow> pyfloat \<Rightarrow> pyfloat" where
  "fdiv (Fin x) (Fin y) =
     (if double y = 0 then inf_of_sign (double x) else fl (double x / double y))"
| "fdiv (Fin x) PInf = Fin 0"
| "fdiv (Fin x) NInf = Fin 0"
| "fdiv PInf (Fin y) = (if double y < 0 then NInf else PInf)"
| "fdiv NInf (Fin y) = (if double y < 0 then PInf else NInf)"
| "fdiv PInf PInf = NaN"
| "fdiv PInf NInf = NaN"
| "fdiv NInf PInf = NaN"
| "fdiv NInf NInf = NaN"
| "fdiv NaN b = NaN"
| "fdiv a NaN = NaN"

text \<open>
  \<^verbatim>\<open>x // d\<close> on floats, as the language and the array library compute it, in float
  operations:
  \<^verbatim>\<open>
  mod = fmod(a, b)
  div = (a - mod) / b
  if mod != 0 and (b < 0) != (mod < 0): div -= 1.0
  if div != 0:
      floordiv = floor(div)
      if div - floordiv > 0.5: floordiv += 1.0
  else: floordiv = 0.0
  \<close>
  \<^verbatim>\<open>fmod\<close> is exact, and so is \<^verbatim>\<open>div - floordiv\<close>; the other steps round. The
  quotient by a divisor of magnitude 1 or more is no larger than the dividend, so it
  cannot leave the range; \<^verbatim>\<open>div - 1.0\<close> and \<^verbatim>\<open>floordiv + 1.0\<close> cannot either.
  An infinite dividend gives \<^verbatim>\<open>NaN\<close>, a zero divisor what the true division gives.
\<close>

definition fmod :: "real \<Rightarrow> real \<Rightarrow> real" where
  "fmod a b = a - b * of_int (trunc (a / b))"

fun snap :: "pyfloat \<Rightarrow> pyfloat" where
  "snap (Fin q) =
     (if q = 0 then Fin 0
      else if 1 / 2 < q - of_int \<lfloor>q\<rfloor> then Fin (double (of_int \<lfloor>q\<rfloor> + 1))
      else Fin (of_int \<lfloor>q\<rfloor>))"
| "snap PInf = PInf"
| "snap NInf = NInf"
| "snap NaN = NaN"

fun minus_one :: "pyfloat \<Rightarrow> pyfloat" where
  "minus_one (Fin q) = Fin (double (q - 1))"
| "minus_one PInf = PInf"
| "minus_one NInf = NInf"
| "minus_one NaN = NaN"

fun floordiv :: "pyfloat \<Rightarrow> real \<Rightarrow> pyfloat" where
  "floordiv (Fin x) d =
     (let a = double x; b = double d in
      if b = 0 then inf_of_sign a
      else
        let m = fmod a b;
            s = double (a - m);
            q = (if 1 \<le> \<bar>b\<bar> then Fin (double (s / b)) else fl (s / b))
        in snap (if m \<noteq> 0 \<and> (b < 0) \<noteq> (m < 0) then minus_one q else q))"
| "floordiv PInf d = NaN"
| "floordiv NInf d = NaN"
| "floordiv NaN d = NaN"

text \<open>
  The comparisons \<^verbatim>\<open>a <= b\<close> and \<^verbatim>\<open>a < b\<close> of floats: false as soon as one side
  is \<^verbatim>\<open>NaN\<close>.
\<close>

fun fle :: "pyfloat \<Rightarrow> pyfloat \<Rightarrow> bool" where
  "fle (Fin x) (Fin y) = (double x \<le> double y)"
| "fle (Fin x) PInf = True"
| "fle (Fin x) NInf = False"
| "fle PInf (Fin y) = False"
| "fle PInf PInf = True"
| "fle PInf NInf = False"
| "fle NInf (Fin y) = True"
| "fle NInf PInf = True"
| "fle NInf NInf = True"
| "fle NaN b = False"
| "fle a NaN = False"

fun flt :: "pyfloat \<Rightarrow> pyfloat \<Rightarrow> bool" where
  "flt (Fin x) (Fin y) = (double x < double y)"
| "flt (Fin x) PInf = True"
| "flt (Fin x) NInf = False"
| "flt PInf (Fin y) = False"
| "flt PInf PInf = False"
| "flt PInf NInf = False"
| "flt NInf (Fin y) = True"
| "flt NInf PInf = True"
| "flt NInf NInf = False"
| "flt NaN b = False"
| "flt a NaN = False"

text \<open>
  \<^verbatim>\<open>Series.sum()\<close> skips \<^verbatim>\<open>NaN\<close> entries (\<^verbatim>\<open>skipna=True\<close>) and is 0 on an
  empty column. The entries are added one after the other, from 0, as the array library
  adds a column of fewer than 8 entries; it adds a longer column in blocks, and the sum
  can then differ in its last bits.
\<close>

definition nansum :: "pyfloat list \<Rightarrow> pyfloat" where
  "nansum xs = foldl fadd (Fin 0) (filter (\<lambda>x. \<not> isnan x) xs)"

text \<open>
  \<^verbatim>\<open>Series.round(d)\<close>: the array library multiplies by \<open>10\<^sup>d\<close>, rounds to the nearest
  integer, a tie going to the even neighbour, and divides by \<open>10\<^sup>d\<close>, all three in float
  operations.
\<close>

fun frint :: "pyfloat \<Rightarrow> pyfloat" where
  "frint (Fin x) = Fin (of_int (rint (double x)))"
| "frint PInf = PInf"
| "frint NInf = NInf"
| "frint NaN = NaN"

definition fround :: "nat \<Rightarrow> pyfloat \<Rightarrow> pyfloat" where
  "fround d x = fdiv (frint (fmul x (Fin (10 ^ d)))) (Fin (10 ^ d))"

text \<open>
  The format \<^verbatim>\<open>{:.2f}\<close> prints the decimal of two places nearest to the exact value
  of the double, a tie going to the even neighbour; an infinity and \<^verbatim>\<open>NaN\<close> print
  as words, not as a number.
\<close>

fun format_2f :: "pyfloat \<Rightarrow> real option" where
  "format_2f (Fin x) = Some (of_int (rint (double x * 100)) / 100)"
| "format_2f PInf = None"
| "format_2f NInf = None"
| "format_2f NaN = None"

text \<open>
  An \<^verbatim>\<open>int64\<close> is written as the integer it holds. Sums of such columns wrap around
  (\<open>wrap64\<close>). The conversion of a float drops the fraction; for a float beyond the
  64-bit range the language leaves the result open, and the value here is the one the
  conversion instruction of the x86-64 processors gives, the least \<^verbatim>\<open>int64\<close>.
\<close>

definition wrap64 :: "int \<Rightarrow> int" where
  "wrap64 n = (n + 2 ^ 63) mod 2 ^ 64 - 2 ^ 63"

definition int64_of :: "real \<Rightarrow> int" where
  "int64_of v = (if - (2 ^ 63) \<le> trunc v \<and> trunc v < 2 ^ 63 then trunc v else - (2 ^ 63))"

subsection \<open>Errors\<close>

text \<open>
  The exceptions the modelled code can meet: the integer conversion of a column that
  holds a non-finite value, the construction of a table from columns of different
  lengths, and a failure of the file reader.
\<close>

datatype error = IntCastingNaNError | ValueError | ReadError

section \<open>Classification of a discipline: \<^verbatim>\<open>categorizar_area\<close>\<close>

datatype area = Matematica | Fisica | Eletronica | Sistemas_de_Potencia | Praticas | Outras

text \<open>
  The table after the numeric coercion: one record per line of the transcript. The
  text fields hold what \<^verbatim>\<open>str(row.get(..., ''))\<close> yields for the cell.
\<close>

record base_row =
  Codigo :: pystr
  Disciplina :: pystr
  Nota :: pyfloat
  Horas :: pyfloat
  Ano :: int

text \<open>
  \<^verbatim>\<open>mapeamento\<close>, in the order the dictionary literal lists its entries, which is the
  order \<^verbatim>\<open>.items()\<close> iterates in.
\<close>

definition mapeamento :: "(pystr \<times> area) list" where
  "mapeamento =
     [(lit ''MAT'', Matematica),
      (lit ''FIS'', Fisica),
      (lit ''CEL'', Eletronica),
      (lit ''ENE'', Sistemas_de_Potencia),
      (lit ''C'' @ [193] @ lit ''LCULO'', Matematica),
      (lit ''F'' @ [205] @ lit ''SICA'', Fisica),
      (lit ''LABORAT'' @ [211] @ lit ''RIO'', Praticas)]"

text \<open>
  The loop \<^verbatim>\<open>for key, value in mapeamento.items()\<close>: the first entry whose key
  begins \<open>codigo\<close> or occurs in \<open>disciplina\<close> decides; \<^verbatim>\<open>'Outras'\<close> after the loop.
\<close>

fun first_match :: "pystr \<Rightarrow> pystr \<Rightarrow> (pystr \<times> area) list \<Rightarrow> area" where
  "first_match codigo disciplina [] = Outras"
| "first_match codigo disciplina ((key, value) # rest) =
     (if startswith codigo key \<or> contains key disciplina then value
      else first_match codigo disciplina rest)"

definition categorizar_area :: "(pystr \<Rightarrow> pystr) \<Rightarrow> 'a base_row_scheme \<Rightarrow> area" where
  "categorizar_area upper row =
     (let codigo = upper (Codigo row);
          disciplina = upper (Disciplina row)
      in first_match codigo disciplina mapeamento)"

section \<open>Loading the transcript: \<^verbatim>\<open>load_data\<close>\<close>

text \<open>
  A cell of a numeric column as the file reader hands it over: a number (text such as
  \<^verbatim>\<open>inf\<close> reads as an infinity), text that is no number, or nothing.
\<close>

datatype cell = Parsed pyfloat | Unparsable | Missing

record csv_row =
  csv_Codigo :: pystr
  csv_Disciplina :: pystr
  csv_Nota :: cell
  csv_Horas :: cell
  csv_Ano :: int

text \<open>\<^verbatim>\<open>pd.to_numeric(..., errors='coerce')\<close> and \<^verbatim>\<open>.fillna(v)\<close>, on one cell.\<close>

fun to_numeric :: "cell \<Rightarrow> pyfloat" where
  "to_numeric (Parsed x) = x"
| "to_numeric Unparsable = NaN"
| "to_numeric Missing = NaN"

fun fillna :: "real \<Rightarrow> pyfloat \<Rightarrow> pyfloat" where
  "fillna v NaN = Fin v"
| "fillna v (Fin x) = Fin x"
| "fillna v PInf = PInf"
| "fillna v NInf = NInf"

definition coerce :: "csv_row \<Rightarrow> base_row" where
  "coerce c =
     \<lparr>Codigo = csv_Codigo c, Disciplina = csv_Disciplina c,
      Nota = fillna 0 (to_numeric (csv_Nota c)),
      Horas = fillna 0 (to_numeric (csv_Horas c)),
      Ano = csv_Ano c\<rparr>"

text \<open>
  \<^verbatim>\<open>.astype(int)\<close> on a float column: it raises when some entry is not finite, and
  otherwise converts every entry to an \<^verbatim>\<open>int64\<close>.
\<close>

fun astype_int :: "pyfloat list \<Rightarrow> error + int list" where
  "astype_int [] = Inr []"
| "astype_int (Fin x # xs) =
     (case astype_int xs of Inl e \<Rightarrow> Inl e | Inr cs \<Rightarrow> Inr (int64_of (double x) # cs))"
| "astype_int (PInf # xs) = Inl IntCastingNaNError"
| "astype_int (NInf # xs) = Inl IntCastingNaNError"
| "astype_int (NaN # xs) = Inl IntCastingNaNError"

record row = base_row +
  Area :: area
  Creditos :: int

definition with_area_creditos :: "base_row \<Rightarrow> area \<Rightarrow> int \<Rightarrow> row" where
  "with_area_creditos r a c =
     \<lparr>Codigo = Codigo r, Disciplina = Disciplina r, Nota = Nota r, Horas = Horas r,
      Ano = Ano r, Area = a, Creditos = c\<rparr>"

text \<open>
  The body of \<^verbatim>\<open>load_data\<close>. Its argument is what \<^verbatim>\<open>pd.read_csv\<close> did: it raised,
  or it returned the lines of the file. Every exception raised inside the \<^verbatim>\<open>try\<close>
  ends in the \<^verbatim>\<open>except\<close> branch, which returns the empty table. (A file that
  lacks the grade or the hours column makes the coercion raise and ends in the same
  branch; it is counted here with the failures of the reader.)
\<close>

definition load_data :: "(pystr \<Rightarrow> pystr) \<Rightarrow> error + csv_row list \<Rightarrow> row list" where
  "load_data upper src =
     (case src of
        Inl e \<Rightarrow> []
      | Inr csv \<Rightarrow>
          (let df = map coerce csv;
               areas = map (categorizar_area upper) df
           in case astype_int (map (\<lambda>r. floordiv (Horas r) 15) df) of
                Inl e \<Rightarrow> []
              | Inr creditos \<Rightarrow>
                  map (\<lambda>(r, a, c). with_area_creditos r a c) (zip df (zip areas creditos))))"

section \<open>The academic tab of \<^verbatim>\<open>main\<close>\<close>

text \<open>\<^verbatim>\<open>df[df['Ano'].isin(anos) & df['Area'].isin(areas)]\<close>\<close>

definition filtered_df :: "row list \<Rightarrow> int list \<Rightarrow> area list \<Rightarrow> row list" where
  "filtered_df df anos areas = filter (\<lambda>r. List.member anos (Ano r) \<and> List.member areas (Area r)) df"

text \<open>
  \<^verbatim>\<open>groupby('Ano', as_index=False).agg({'Creditos': 'sum'})\<close>: one line per year,
  years ascending, with the sum of the credits of that year. (Every record has a year
  here; the library leaves records without one out of the groups.)
\<close>

definition groupby_Ano_sum :: "row list \<Rightarrow> (int \<times> int) list" where
  "groupby_Ano_sum df =
     map (\<lambda>y. (y, wrap64 (sum_list (map Creditos (filter (\<lambda>r. Ano r = y) df)))))
       (sort (remdups (map Ano df)))"

fun cumsum_from :: "int \<Rightarrow> int list \<Rightarrow> int list" where
  "cumsum_from s [] = []"
| "cumsum_from s (x # xs) = wrap64 (s + x) # cumsum_from (wrap64 (s + x)) xs"

definition cumsum :: "int list \<Rightarrow> int list" where
  "cumsum xs = cumsum_from 0 xs"

definition total_creditos :: "row list \<Rightarrow> int" where
  "total_creditos df = wrap64 (sum_list (map snd (groupby_Ano_sum df)))"

text \<open>
  \<^verbatim>\<open>(df_acumulado['Acumulado'] / total_creditos * 100).round(2)\<close>, on one entry of
  the column.
\<close>

definition pct_acumulado :: "int \<Rightarrow> int \<Rightarrow> pyfloat" where
  "pct_acumulado acumulado tot =
     fround 2 (fmul (fdiv (Fin (of_int acumulado)) (Fin (of_int tot))) (Fin 100))"

record acumulado_row =
  ac_Ano :: int
  ac_Creditos :: int
  Acumulado :: int
  Pct_Acumulado :: pyfloat

definition df_acumulado :: "row list \<Rightarrow> acumulado_row list" where
  "df_acumulado df =
     (let g = groupby_Ano_sum df;
          tot = total_creditos df
      in map (\<lambda>((y, c), a).
                \<lparr>ac_Ano = y, ac_Creditos = c, Acumulado = a, Pct_Acumulado = pct_acumulado a tot\<rparr>)
           (zip g (cumsum (map snd g))))"

text \<open>
  \<^verbatim>\<open>(filtered_df['Nota'] * filtered_df['Creditos']).sum() / total_creditos
  if total_creditos > 0 else 0\<close>
\<close>

definition ira :: "row list \<Rightarrow> pyfloat" where
  "ira df =
     (if 0 < total_creditos df
      then fdiv (nansum (map (\<lambda>r. fmul (Nota r) (Fin (of_int (Creditos r)))) df))
             (Fin (of_int (total_creditos df)))
      else Fin 0)"

text \<open>
  \<^verbatim>\<open>st.metric(..., f"{ira:.2f}")\<close>: the number that is shown, with two decimals.
\<close>

definition ira_shown :: "row list \<Rightarrow> real option" where
  "ira_shown df = format_2f (ira df)"

text \<open>
  \<^verbatim>\<open>nlargest(n, 'Nota')\<close> with its default \<^verbatim>\<open>keep='first'\<close>, as the library
  documents it: the first \<open>n\<close> lines in descending order of the grade, the first
  occurrences having priority among lines of equal grade. The library sorts the negated
  column with a stable sort and puts lines without a grade last; \<open>desc_key\<close> is that
  sort key, and the stable sort is the insertion sort \<open>sort_key\<close>.
\<close>

fun desc_key :: "pyfloat \<Rightarrow> int \<times> real" where
  "desc_key PInf = (0, 0)"
| "desc_key (Fin x) = (1, - double x)"
| "desc_key NInf = (2, 0)"
| "desc_key NaN = (3, 0)"

definition nlargest :: "nat \<Rightarrow> row list \<Rightarrow> row list" where
  "nlargest n df = take n (sort_key (\<lambda>r. desc_key (Nota r)) df)"

record top_row =
  top_Disciplina :: pystr
  top_Nota :: pyfloat
  top_Creditos :: int
  top_Area :: area

text \<open>\<^verbatim>\<open>[['Disciplina', 'Nota', 'Creditos', 'Area']]\<close>, on one record.\<close>

definition top_columns :: "row \<Rightarrow> top_row" where
  "top_columns r =
     \<lparr>top_Disciplina = Disciplina r, top_Nota = Nota r,
      top_Creditos = Creditos r, top_Area = Area r\<rparr>"

definition top_disciplinas :: "row list \<Rightarrow> top_row list" where
  "top_disciplinas df = map top_columns (nlargest 10 df)"

section \<open>The career tab: \<^verbatim>\<open>create_career_assessment\<close> and the strengths\<close>

text \<open>
  The two columns of \<^verbatim>\<open>benchmark\<close>. Only the second one is read by the code.
\<close>

definition benchmark_Competencia :: "pystr list" where
  "benchmark_Competencia =
     [lit ''Engenharia El'' @ [233] @ lit ''trica'',
      lit ''Power Line Communication'',
      lit ''Gest'' @ [227] @ lit ''o de Projetos'',
      lit ''Atendimento ao Cliente'',
      lit ''An'' @ [225] @ lit ''lise de Dados'',
      lit ''Vendas T'' @ [233] @ lit ''cnicas'',
      lit ''Automa'' @ [231, 227] @ lit ''o Industrial'',
      lit ''Lideran'' @ [231] @ lit ''a de Equipes'',
      lit ''Sustentabilidade Energ'' @ [233] @ lit ''tica'',
      lit ''Transforma'' @ [231, 227] @ lit ''o Digital'']"

definition benchmark_Benchmark :: "real list" where
  "benchmark_Benchmark = [3.8, 3.2, 4.1, 3.5, 3.9, 3.4, 4.0, 3.7, 4.2, 3.6]"

record comparison_row =
  Competencia :: pystr
  Sua_Avaliacao :: real
  Media_de_Mercado :: real

text \<open>
  \<^verbatim>\<open>pd.DataFrame({...})\<close> from three columns: the columns are laid side by side, line
  \<open>i\<close> of the table taking entry \<open>i\<close> of each; columns of different lengths raise
  \<^verbatim>\<open>ValueError\<close>.
\<close>

definition DataFrame :: "'a list \<Rightarrow> 'b list \<Rightarrow> 'c list \<Rightarrow> error + ('a \<times> 'b \<times> 'c) list" where
  "DataFrame xs ys zs =
     (if length xs = length ys \<and> length ys = length zs then Inr (zip xs (zip ys zs))
      else Inl ValueError)"

text \<open>
  \<^verbatim>\<open>ratings\<close> is a dictionary: its entries in insertion order, which is the order of
  \<^verbatim>\<open>.keys()\<close> and \<^verbatim>\<open>.values()\<close>. The self-ratings come from sliders and the
  benchmark from literals, so these columns are finite; an entry is written as its
  decimal and stands for the double that the decimal is read as. The figures that the
  function also builds only draw the table.
\<close>

definition create_career_assessment :: "(pystr \<times> real) list \<Rightarrow> error + comparison_row list" where
  "create_career_assessment ratings =
     (case DataFrame (map fst ratings) (map snd ratings) benchmark_Benchmark of
        Inl e \<Rightarrow> Inl e
      | Inr df \<Rightarrow>
          Inr (map (\<lambda>(k, v, b). \<lparr>Competencia = k, Sua_Avaliacao = v, Media_de_Mercado = b\<rparr>) df))"

record diferencial_row = comparison_row +
  Diferencial :: pyfloat

text \<open>
  \<^verbatim>\<open>df_comparison['Diferencial'] = df_comparison['Sua Avaliacao'] -
  df_comparison['Media de Mercado']\<close> and
  \<^verbatim>\<open>strengths = df_comparison[df_comparison['Diferencial'] > 0.5]\<close>
\<close>

definition with_diferencial :: "comparison_row list \<Rightarrow> diferencial_row list" where
  "with_diferencial df =
     map (\<lambda>r. \<lparr>Competencia = Competencia r, Sua_Avaliacao = Sua_Avaliacao r,
               Media_de_Mercado = Media_de_Mercado r,
               Diferencial = fsub (Fin (Sua_Avaliacao r)) (Fin (Media_de_Mercado r))\<rparr>) df"

definition strengths :: "diferencial_row list \<Rightarrow> diferencial_row list" where
  "strengths df = filter (\<lambda>r. flt (Fin 0.5) (Diferencial r)) df"

definition career_tab :: "(pystr \<times> real) list \<Rightarrow> error + diferencial_row list" where
  "career_tab ratings =
     (case create_career_assessment ratings of
        Inl e \<Rightarrow> Inl e
      | Inr df_comparison \<Rightarrow> Inr (strengths (with_diferencial df_comparison)))"

text \<open>The ratings that \<^verbatim>\<open>main\<close> starts a session with.\<close>

definition initial_ratings :: "(pystr \<times> real) list" where
  "initial_ratings = map (\<lambda>k. (k, 3.0)) benchmark_Competencia"

section \<open>Notions used in the statements\<close>

text \<open>
  The number that a finite float holds; a line of the file whose hours do not read as
  an infinity; the credits that \<open>load_data\<close> derives from hours, and the record that it
  makes of one line.
\<close>

fun fin_value :: "pyfloat \<Rightarrow> real" where
  "fin_value (Fin x) = double x"
| "fin_value PInf = 0"
| "fin_value NInf = 0"
| "fin_value NaN = 0"

definition finite_hours :: "csv_row \<Rightarrow> bool" where
  "finite_hours c = (csv_Horas c \<noteq> Parsed PInf \<and> csv_Horas c \<noteq> Parsed NInf)"

fun creditos_of :: "pyfloat \<Rightarrow> int" where
  "creditos_of (Fin q) = int64_of (double q)"
| "creditos_of PInf = 0"
| "creditos_of NInf = 0"
| "creditos_of NaN = 0"

definition normalize :: "(pystr \<Rightarrow> pystr) \<Rightarrow> csv_row \<Rightarrow> row" where
  "normalize up c =
     with_area_creditos (coerce c) (categorizar_area up (coerce c))
       (creditos_of (floordiv (Horas (coerce c)) 15))"

text \<open>
  The weighted grade average as the specification words it:
  \<^verbatim>\<open>sum(Grade_i * Credits_i) / sum(Credits_i)\<close> over the records, and 0.0 when the
  total of the credits is 0. Its sum is the plain sum of floats, in which a \<^verbatim>\<open>NaN\<close>
  term makes the sum \<^verbatim>\<open>NaN\<close>.
\<close>

definition fsum :: "pyfloat list \<Rightarrow> pyfloat" where
  "fsum xs = foldl fadd (Fin 0) xs"

definition weighted_gpa_spec :: "row list \<Rightarrow> pyfloat" where
  "weighted_gpa_spec df =
     (if wrap64 (sum_list (map Creditos df)) = 0 then Fin 0
      else fdiv (fsum (map (\<lambda>r. fmul (Nota r) (Fin (of_int (Creditos r)))) df))
             (Fin (of_int (wrap64 (sum_list (map Creditos df))))))"

text \<open>Two grades that the comparison of floats takes for equal.\<close>

definition same_grade :: "pyfloat \<Rightarrow> pyfloat \<Rightarrow> bool" where
  "same_grade a b = (fle a b \<and> fle b a)"

section \<open>Inputs used in the examples\<close>

text \<open>
  The initial ratings with their first two entries exchanged, and with the first
  competency replaced by one that the benchmark does not list.
\<close>

definition swapped_ratings :: "(pystr \<times> real) list" where
  "swapped_ratings = (initial_ratings ! 1) # (initial_ratings ! 0) # drop 2 initial_ratings"

definition unknown_key_ratings :: "(pystr \<times> real) list" where
  "unknown_key_ratings = (lit ''Culin'' @ [225] @ lit ''ria'', 4.0) # tl initial_ratings"

text \<open>
  Transcripts: one with a grade that is no number, a grade that is missing and hours
  that are no number; one where the hours of the second line read as an infinity; one
  with very large hours; one where a line of 60 hours stands beside hours that read as
  the negative infinity; one with negative hours.
\<close>

definition example_csv :: "csv_row list" where
  "example_csv =
     [\<lparr>csv_Codigo = lit ''MAT101'', csv_Disciplina = lit ''Algebra Linear'',
       csv_Nota = Parsed (Fin 8), csv_Horas = Parsed (Fin 44), csv_Ano = 2020\<rparr>,
      \<lparr>csv_Codigo = lit ''FIS201'', csv_Disciplina = lit ''Mecanica'',
       csv_Nota = Unparsable, csv_Horas = Parsed (Fin 15), csv_Ano = 2020\<rparr>,
      \<lparr>csv_Codigo = lit ''HUM300'', csv_Disciplina = lit ''Filosofia'',
       csv_Nota = Missing, csv_Horas = Unparsable, csv_Ano = 2021\<rparr>]"

definition infinite_hours_csv :: "csv_row list" where
  "infinite_hours_csv =
     [\<lparr>csv_Codigo = lit ''MAT101'', csv_Disciplina = lit ''Algebra Linear'',
       csv_Nota = Unparsable, csv_Horas = Parsed (Fin 60), csv_Ano = 2020\<rparr>,
      \<lparr>csv_Codigo = lit ''FIS201'', csv_Disciplina = lit ''Mecanica'',
       csv_Nota = Parsed (Fin 8), csv_Horas = Parsed PInf, csv_Ano = 2020\<rparr>]"

definition large_hours_csv :: "csv_row list" where
  "large_hours_csv =
     [\<lparr>csv_Codigo = lit ''MAT101'', csv_Disciplina = lit ''Algebra Linear'',
       csv_Nota = Parsed (Fin 8), csv_Horas = Parsed (Fin 200000000000000000), csv_Ano = 2020\<rparr>]"

definition dropped_hours_csv :: "csv_row list" where
  "dropped_hours_csv =
     [\<lparr>csv_Codigo = lit ''MAT101'', csv_Disciplina = lit ''Algebra Linear'',
       csv_Nota = Parsed (Fin 8), csv_Horas = Parsed (Fin 60), csv_Ano = 2020\<rparr>,
      \<lparr>csv_Codigo = lit ''FIS201'', csv_Disciplina = lit ''Mecanica'',
       csv_Nota = Parsed (Fin 7), csv_Horas = Parsed NInf, csv_Ano = 2020\<rparr>]"

definition negative_hours_csv :: "csv_row list" where
  "negative_hours_csv =
     [\<lparr>csv_Codigo = lit ''MAT101'', csv_Disciplina = lit ''Algebra Linear'',
       csv_Nota = Parsed (Fin 8), csv_Horas = Parsed (Fin (- 30)), csv_Ano = 2020\<rparr>]"

text \<open>
  Filtered tables: one discipline of 10 hours, hence of no credit; a transcript whose
  first grade reads as an infinity, and the table that the loader makes of it; the two
  records of the grade-average example; and tables built from a list of grades, one of
  twelve different grades and one where three records share a grade.
\<close>

definition zero_credit_df :: "row list" where
  "zero_credit_df =
     [\<lparr>Codigo = lit ''HUM300'', Disciplina = lit ''Seminario'', Nota = Fin 7, Horas = Fin 10,
       Ano = 2020, Area = Outras, Creditos = 0\<rparr>]"

definition inf_grade_csv :: "csv_row list" where
  "inf_grade_csv =
     [\<lparr>csv_Codigo = lit ''HUM300'', csv_Disciplina = lit ''Seminario'',
       csv_Nota = Parsed PInf, csv_Horas = Parsed (Fin 10), csv_Ano = 2020\<rparr>,
      \<lparr>csv_Codigo = lit ''FIS201'', csv_Disciplina = lit ''Mecanica'',
       csv_Nota = Parsed (Fin 6), csv_Horas = Parsed (Fin 60), csv_Ano = 2020\<rparr>]"

definition inf_grade_df :: "row list" where
  "inf_grade_df =
     [\<lparr>Codigo = lit ''HUM300'', Disciplina = lit ''Seminario'', Nota = PInf, Horas = Fin 10,
       Ano = 2020, Area = Outras, Creditos = 0\<rparr>,
      \<lparr>Codigo = lit ''FIS201'', Disciplina = lit ''Mecanica'', Nota = Fin 6, Horas = Fin 60,
       Ano = 2020, Area = Fisica, Creditos = 4\<rparr>]"

definition gpa_df :: "row list" where
  "gpa_df =
     [\<lparr>Codigo = lit ''MAT101'', Disciplina = lit ''Algebra Linear'', Nota = Fin 8, Horas = Fin 30,
       Ano = 2020, Area = Matematica, Creditos = 2\<rparr>,
      \<lparr>Codigo = lit ''FIS201'', Disciplina = lit ''Mecanica'', Nota = Fin 6, Horas = Fin 60,
       Ano = 2021, Area = Fisica, Creditos = 4\<rparr>]"

definition graded :: "nat \<Rightarrow> real \<Rightarrow> row" where
  "graded i g =
     \<lparr>Codigo = lit ''D'' @ [48 + i], Disciplina = lit ''Disciplina '' @ [65 + i],
      Nota = Fin g, Horas = Fin 60, Ano = 2020, Area = Outras, Creditos = 4\<rparr>"

definition twelve_df :: "row list" where
  "twelve_df = map2 graded [0, 1, 2, 3, 4, 5, 6, 7, 8, 9, 10, 11]
                 [6.5, 9.0, 7.0, 5.5, 8.0, 10.0, 4.0, 7.5, 9.5, 6.0, 8.5, 3.0]"

definition tied_df :: "row list" where
  "tied_df = map2 graded [0, 1, 2, 3] [7.0, 9.0, 7.0, 7.0]"

section \<open>Properties of the numbers\<close>

text \<open>
  The rounding to a double is computed by the simplifier from the definitions and the
  number of bits of a numeral.
\<close>

lemma bitlen_1: "bitlen 1 = 1"
  by (simp add: bitlen_alt_def)

lemma bitlen_numeral: "bitlen (numeral k) = bitlen (numeral k div 2) + 1"
  by (subst compute_bitlen) simp

lemmas eval_double = double_def ulp_exp_def expo_def rint_def bitlen_1 bitlen_numeral

lemmas eval_float = eval_double fl_def inf_of_sign_def fmod_def trunc_def int64_of_def wrap64_def

text \<open>Integers of magnitude up to \<open>2\<^sup>5\<^sup>3\<close> are doubles.\<close>

lemma rint_of_int: "rint (of_int k) = k"
  by (simp add: rint_def)

lemma trunc_of_int: "trunc (of_int k) = k"
  by (simp add: trunc_def)

lemma expo_of_int:
  assumes "n \<noteq> 0"
  shows "expo (of_int n) = bitlen \<bar>n\<bar> - 1"
proof -
  have "1 \<le> \<bar>n\<bar>" using assms by simp
  then have "1 \<le> real_of_int \<bar>n\<bar>" by (simp only: of_int_1_le_iff)
  then show ?thesis
    by (simp add: expo_def flip: of_int_abs)
qed

lemma expo_int_le:
  assumes "n \<noteq> 0" and "\<bar>n\<bar> < 2 ^ 53"
  shows "expo (of_int n) \<le> 52"
proof -
  have p: "0 < \<bar>n\<bar>" using assms(1) by simp
  from bitlen_bounds [OF p] have "2 ^ nat (bitlen \<bar>n\<bar> - 1) \<le> \<bar>n\<bar>" by simp
  with assms(2) have "(2::int) ^ nat (bitlen \<bar>n\<bar> - 1) < 2 ^ 53" by linarith
  then have "nat (bitlen \<bar>n\<bar> - 1) < 53"
    by (rule power_less_imp_less_exp [rotated]) simp
  then show ?thesis using assms(1) by (simp add: expo_of_int)
qed

lemma round_to_multiple:
  assumes "p \<le> 0"
  shows "of_int (rint (of_int n / 2 powi p)) * 2 powi p = (of_int n :: real)"
proof -
  have e: "(2::real) powi p = inverse (2 ^ nat (- p))"
    using assms by (simp add: power_int_def power_one_over inverse_eq_divide)
  then have "of_int n / (2::real) powi p = of_int (n * 2 ^ nat (- p))"
    by (simp add: divide_inverse)
  then have "rint (of_int n / 2 powi p) = n * 2 ^ nat (- p)"
    by (simp only: rint_of_int)
  then show ?thesis
    using e by simp
qed

lemma double_of_int_lt:
  assumes "\<bar>n\<bar> < 2 ^ 53"
  shows "double (of_int n) = of_int n"
proof (cases "n = 0")
  case True
  then show ?thesis by (simp add: double_def)
next
  case False
  then have "ulp_exp (of_int n) \<le> 0"
    using expo_int_le [OF False assms] by (simp add: ulp_exp_def)
  then show ?thesis
    using False by (simp add: double_def round_to_multiple)
qed

lemma double_of_int:
  assumes "\<bar>n\<bar> \<le> 2 ^ 53"
  shows "double (of_int n) = of_int n"
proof (cases "\<bar>n\<bar> < 2 ^ 53")
  case True
  then show ?thesis by (rule double_of_int_lt)
next
  case False
  with assms have "n = 2 ^ 53 \<or> n = - (2 ^ 53)" by linarith
  then show ?thesis
    by (auto simp: eval_double)
qed

text \<open>Dropping the fraction, and the floor of a quotient by 15 from it.\<close>

lemma abs_trunc_le: "\<bar>real_of_int (trunc y)\<bar> \<le> \<bar>y\<bar>"
  unfolding trunc_def by (auto; linarith)

lemma trunc_mult_le: "\<bar>15 * real_of_int (trunc (a / 15))\<bar> \<le> \<bar>a\<bar>"
  using abs_trunc_le [of "a / 15"] by (simp add: abs_mult)

lemma floor_from_trunc:
  "\<lfloor>a / 15 :: real\<rfloor> = (if a - 15 * of_int (trunc (a / 15)) < 0 then trunc (a / 15) - 1 else trunc (a / 15))"
  unfolding trunc_def by (auto simp: floor_eq_iff; linarith)


text \<open>
  Below \<open>2\<^sup>5\<^sup>3\<close> the floor division by 15 rounds nothing: it is the floor of the exact
  quotient, and the conversion to \<^verbatim>\<open>int64\<close> keeps it.
\<close>

lemma double_15: "double 15 = 15"
  by (simp add: eval_double)

lemma snap_of_int: "snap (Fin (of_int k)) = Fin (of_int k)"
  by simp

lemma floordiv_15_unfold:
  "floordiv (Fin x) 15 =
     snap (if fmod (double x) 15 < 0
           then minus_one (Fin (double (double (double x - fmod (double x) 15) / 15)))
           else Fin (double (double (double x - fmod (double x) 15) / 15)))"
proof -
  have c: "(fmod (double x) 15 \<noteq> 0 \<and> ((15::real) < 0) \<noteq> (fmod (double x) 15 < 0))
        = (fmod (double x) 15 < 0)"
    by auto
  show ?thesis
    unfolding floordiv.simps Let_def double_15 c by simp
qed

lemma floordiv_15_exact:
  assumes "\<bar>double x\<bar> < 2 ^ 53"
  shows "floordiv (Fin x) 15 = Fin (of_int \<lfloor>double x / 15\<rfloor>)"
proof -
  define a where "a = double x"
  define t where "t = trunc (a / 15)"
  have m: "fmod a 15 = a - 15 * of_int t"
    by (simp add: t_def fmod_def)
  have b: "\<bar>15 * real_of_int t\<bar> < 2 ^ 53"
    using trunc_mult_le [of a] assms by (simp add: t_def a_def)
  then have "\<bar>real_of_int (15 * t)\<bar> < real_of_int (2 ^ 53)"
    by simp
  then have b15: "\<bar>15 * t\<bar> < 2 ^ 53"
    unfolding of_int_abs [symmetric] of_int_less_iff .
  then have bt: "\<bar>t\<bar> < 2 ^ 53" and bt1: "\<bar>t - 1\<bar> \<le> 2 ^ 53"
    by linarith+
  have s: "double (a - fmod a 15) = 15 * of_int t"
    using double_of_int_lt [OF b15] by (simp add: m)
  have q: "double (15 * real_of_int t / 15) = of_int t"
    using double_of_int_lt [OF bt] by simp
  have q1: "minus_one (Fin (real_of_int t)) = Fin (of_int (t - 1))"
    using double_of_int [OF bt1] by simp
  have "floordiv (Fin x) 15 = snap (if fmod a 15 < 0 then Fin (of_int (t - 1)) else Fin (of_int t))"
    unfolding floordiv_15_unfold a_def [symmetric] s q q1 ..
  also have "\<dots> = Fin (of_int (if fmod a 15 < 0 then t - 1 else t))"
    by (simp only: snap_of_int if_distrib [of snap] if_distrib [of Fin] if_distrib [of of_int])
  also have "(if fmod a 15 < 0 then t - 1 else t) = \<lfloor>a / 15\<rfloor>"
    unfolding m t_def by (simp add: floor_from_trunc)
  finally show ?thesis
    by (simp add: a_def)
qed

lemma int64_of_of_int:
  assumes "\<bar>k\<bar> < 2 ^ 53"
  shows "int64_of (of_int k) = k"
proof -
  from assms have "- (2 ^ 63) \<le> k" and "k < 2 ^ 63"
    by simp_all
  then show ?thesis
    by (simp add: int64_of_def trunc_of_int)
qed

lemma floor_bound:
  assumes "\<bar>v\<bar> < 2 ^ 53"
  shows "\<bar>\<lfloor>v / 15 :: real\<rfloor>\<bar> < 2 ^ 53"
proof -
  have "\<bar>real_of_int \<lfloor>v / 15\<rfloor>\<bar> \<le> \<bar>v / 15\<bar> + 1"
    by linarith
  also have "\<dots> < 2 ^ 53" using assms by simp
  finally have "\<bar>real_of_int \<lfloor>v / 15\<rfloor>\<bar> < real_of_int (2 ^ 53)" by simp
  then show ?thesis
    unfolding of_int_abs [symmetric] of_int_less_iff .
qed

lemma creditos_of_floordiv:
  assumes "\<bar>double x\<bar> < 2 ^ 53"
  shows "creditos_of (floordiv (Fin x) 15) = \<lfloor>double x / 15\<rfloor>"
  unfolding floordiv_15_exact [OF assms] creditos_of.simps
    double_of_int_lt [OF floor_bound [OF assms]]
  by (rule int64_of_of_int [OF floor_bound [OF assms]])

section \<open>Properties of the classifier\<close>

lemma lit_Nil: "lit [] = []"
  by (simp add: lit_def)

lemma lit_Cons: "lit (c # cs) = of_char c # lit cs"
  by (simp add: lit_def)

lemmas eval_text = lit_Nil lit_Cons upper_latin1_def upper_cp_def

text \<open>The two tests on texts are the prefix and the contiguous-sublist relations.\<close>

lemma startswith_prefix: "startswith s k \<longleftrightarrow> prefix k s"
  by (induction s k rule: startswith.induct) auto

lemma contains_sublist: "contains k s \<longleftrightarrow> sublist k s"
  by (induction s) (auto simp: sublist_Cons_right startswith_prefix)

text \<open>
  C1 (as amended). For every record, the area is decided by the keywords
  \<^verbatim>\<open>MAT\<close>, \<^verbatim>\<open>FIS\<close>, \<^verbatim>\<open>CEL\<close>, \<^verbatim>\<open>ENE\<close>, \<^verbatim>\<open>CALCULO\<close>, \<^verbatim>\<open>FISICA\<close>,
  \<^verbatim>\<open>LABORATORIO\<close> (the last three with their accents) tried in this order on the
  upper-cased fields. A keyword matches when the code begins with it or when the name of
  the discipline contains it: every keyword is tried on both fields. The first keyword
  that matches gives the area (Mathematics, Physics, Electronics, Power Systems,
  Mathematics, Physics, Practices), and a record that no keyword matches gets
  \<^verbatim>\<open>Outras\<close>. So a record whose code begins with \<^verbatim>\<open>FIS\<close> and whose discipline name
  contains \<^verbatim>\<open>MAT\<close> is classified as Mathematics.
\<close>

theorem categorizar_area_first_match:
  "categorizar_area upper row =
     (let c = upper (Codigo row);
          d = upper (Disciplina row);
          hit = (\<lambda>k. prefix k c \<or> sublist k d)
      in if hit (lit ''MAT'') then Matematica
         else if hit (lit ''FIS'') then Fisica
         else if hit (lit ''CEL'') then Eletronica
         else if hit (lit ''ENE'') then Sistemas_de_Potencia
         else if hit (lit ''C'' @ [193] @ lit ''LCULO'') then Matematica
         else if hit (lit ''F'' @ [205] @ lit ''SICA'') then Fisica
         else if hit (lit ''LABORAT'' @ [211] @ lit ''RIO'') then Praticas
         else Outras)
   \<and> (prefix (lit ''FIS'') (upper (Codigo row)) \<and> sublist (lit ''MAT'') (upper (Disciplina row))
        \<longrightarrow> categorizar_area upper row = Matematica)"
  unfolding categorizar_area_def mapeamento_def Let_def first_match.simps
    startswith_prefix contains_sublist
  by simp

theorem categorizar_area_first_match_witness:
  "prefix (lit ''FIS'') (upper_latin1 (lit ''fis202''))
   \<and> sublist (lit ''MAT'') (upper_latin1 (lit ''Formatacao de Dados''))
   \<and> categorizar_area upper_latin1
        \<lparr>Codigo = lit ''fis202'', Disciplina = lit ''Formatacao de Dados'',
         Nota = Fin 8, Horas = Fin 60, Ano = 2021\<rparr> = Matematica"
  using categorizar_area_first_match [of upper_latin1
      "\<lparr>Codigo = lit ''fis202'', Disciplina = lit ''Formatacao de Dados'',
         Nota = Fin 8, Horas = Fin 60, Ano = 2021\<rparr>"]
  by (simp add: eval_text sublist_Cons_right)

text \<open>
  C1 as stated fails: the code \<^verbatim>\<open>FIS101\<close> begins with \<^verbatim>\<open>FIS\<close>, the name
  \<^verbatim>\<open>Materiais Eletricos\<close> contains \<^verbatim>\<open>MAT\<close> once upper-cased, and the record is
  classified as Mathematics, not Physics.
\<close>

theorem categorizar_area_FIS_code_MAT_name_counterexample:
  "startswith (upper_latin1 (lit ''FIS101'')) (lit ''FIS'')
   \<and> contains (lit ''MAT'') (upper_latin1 (lit ''Materiais El'' @ [233] @ lit ''tricos''))
   \<and> categorizar_area upper_latin1
        \<lparr>Codigo = lit ''FIS101'', Disciplina = lit ''Materiais El'' @ [233] @ lit ''tricos'',
         Nota = Fin 7, Horas = Fin 60, Ano = 2020\<rparr> = Matematica
   \<and> categorizar_area upper_latin1
        \<lparr>Codigo = lit ''FIS101'', Disciplina = lit ''Materiais El'' @ [233] @ lit ''tricos'',
         Nota = Fin 7, Horas = Fin 60, Ano = 2020\<rparr> \<noteq> Fisica"
  by (simp add: categorizar_area_def mapeamento_def eval_text)

section \<open>Properties of the loader\<close>

lemmas eval_load = load_data_def coerce_def with_area_creditos_def categorizar_area_def
  mapeamento_def eval_text eval_float

lemma isfinite_iff: "isfinite x \<longleftrightarrow> (\<exists>v. x = Fin v)"
  by (cases x) auto

text \<open>The floor division of a finite float by 15 is a finite float.\<close>

lemma floordiv_15_finite: "isfinite (floordiv (Fin x) 15)"
  unfolding floordiv_15_unfold by simp

text \<open>The integer conversion of the credits succeeds exactly on columns of finite hours.\<close>

lemma astype_int_floordiv:
  "list_all isfinite hs \<Longrightarrow>
     astype_int (map (\<lambda>h. floordiv h 15) hs) = Inr (map (\<lambda>h. creditos_of (floordiv h 15)) hs)"
proof (induction hs)
  case Nil
  then show ?case by simp
next
  case (Cons h hs)
  then obtain x where h: "h = Fin x"
    by (auto simp: isfinite_iff)
  obtain q where q: "floordiv (Fin x) 15 = Fin q"
    using floordiv_15_finite [of x] by (auto simp: isfinite_iff)
  from Cons show ?case
    by (simp add: h q del: floordiv.simps)
qed

lemma astype_int_not_finite:
  "\<not> list_all isfinite hs \<Longrightarrow>
     astype_int (map (\<lambda>h. floordiv h 15) hs) = Inl IntCastingNaNError"
proof (induction hs)
  case Nil
  then show ?case by simp
next
  case (Cons h hs)
  show ?case
  proof (cases h)
    case (Fin x)
    obtain q where q: "floordiv (Fin x) 15 = Fin q"
      using floordiv_15_finite [of x] by (auto simp: isfinite_iff)
    from Cons Fin show ?thesis
      by (simp add: q del: floordiv.simps)
  qed simp_all
qed

lemma zip_zip_map:
  "zip (map h xs) (zip (map f xs) (map g xs)) = map (\<lambda>x. (h x, f x, g x)) xs"
  by (induction xs) auto

lemma isfinite_Horas_coerce: "isfinite (Horas (coerce c)) \<longleftrightarrow> finite_hours c"
proof (cases "csv_Horas c")
  case (Parsed x)
  then show ?thesis by (cases x) (simp_all add: coerce_def finite_hours_def)
qed (simp_all add: coerce_def finite_hours_def)

text \<open>
  The loader in closed form: every line is normalised on its own when all hours are
  finite, and the table is empty otherwise.
\<close>

lemma load_data_Inr:
  "load_data up (Inr csv) = (if list_all finite_hours csv then map (normalize up) csv else [])"
proof (cases "list_all finite_hours csv")
  case True
  then have "list_all isfinite (map Horas (map coerce csv))"
    by (simp add: list_all_iff isfinite_Horas_coerce)
  from astype_int_floordiv [OF this] True show ?thesis
    by (simp add: load_data_def comp_def zip_zip_map normalize_def del: floordiv.simps)
next
  case False
  then have "\<not> list_all isfinite (map Horas (map coerce csv))"
    by (simp add: list_all_iff isfinite_Horas_coerce)
  from astype_int_not_finite [OF this] False show ?thesis
    by (simp add: load_data_def comp_def del: floordiv.simps)
qed

lemma load_data_Inl: "load_data up (Inl e) = []"
  by (simp add: load_data_def)

lemma load_data_nth:
  assumes "list_all finite_hours csv" and "i < length csv"
  shows "load_data up (Inr csv) ! i = normalize up (csv ! i)"
  using assms by (simp add: load_data_Inr)

lemma load_data_member:
  assumes "r \<in> set (load_data up src)"
  obtains csv c where "src = Inr csv" and "list_all finite_hours csv" and "c \<in> set csv"
    and "r = normalize up c"
proof (cases src)
  case (Inl e)
  with assms show ?thesis by (simp add: load_data_Inl)
next
  case (Inr csv)
  with assms have f: "list_all finite_hours csv" and "r \<in> set (map (normalize up) csv)"
    by (auto simp: load_data_Inr split: if_splits)
  then obtain c where "c \<in> set csv" "r = normalize up c" by auto
  with Inr f that show ?thesis by blast
qed

text \<open>Every record of the loaded table has finite hours, and the credits made of them.\<close>

lemma normalize_Horas:
  assumes "finite_hours c"
  shows "\<exists>h. Horas (normalize up c) = Fin h \<and> Creditos (normalize up c) = creditos_of (floordiv (Fin h) 15)"
proof -
  from assms have "isfinite (Horas (coerce c))" by (simp add: isfinite_Horas_coerce)
  then obtain v where "Horas (coerce c) = Fin v" by (auto simp: isfinite_iff)
  then show ?thesis
    by (simp add: normalize_def with_area_creditos_def del: floordiv.simps)
qed

lemma load_data_Creditos:
  assumes "r \<in> set (load_data up src)"
  shows "\<exists>h. Horas r = Fin h \<and> Creditos r = creditos_of (floordiv (Fin h) 15)"
proof -
  from assms obtain csv c where "list_all finite_hours csv" "c \<in> set csv" "r = normalize up c"
    by (rule load_data_member)
  then have "finite_hours c" by (simp add: list_all_iff)
  with \<open>r = normalize up c\<close> show ?thesis
    using normalize_Horas [of c up] by simp
qed

text \<open>The credits of hours of magnitude below \<open>2\<^sup>5\<^sup>3\<close>.\<close>

lemma Creditos_of_Horas:
  assumes "r \<in> set (load_data up src)" and "Horas r = Fin h" and "\<bar>double h\<bar> < 2 ^ 53"
  shows "Creditos r = \<lfloor>double h / 15\<rfloor>"
  using load_data_Creditos [OF assms(1)] assms(2) creditos_of_floordiv [OF assms(3)]
  by auto

lemma floor_15_facts:
  fixes v :: real
  shows "(0 \<le> \<lfloor>v / 15\<rfloor>) = (0 \<le> v)" and "(\<lfloor>v / 15\<rfloor> < 0) = (v < 0)"
    and "0 \<le> v \<Longrightarrow> v < 15 \<Longrightarrow> \<lfloor>v / 15\<rfloor> = 0"
  by (simp_all add: zero_le_floor floor_less_zero floor_eq_iff)

text \<open>No record of the loaded table has a \<^verbatim>\<open>NaN\<close> grade.\<close>

lemma fillna_not_nan: "\<not> isnan (fillna v x)"
  by (cases x) simp_all

lemma load_data_Nota_not_nan:
  assumes "r \<in> set (load_data up src)"
  shows "\<not> isnan (Nota r)"
proof -
  from assms obtain c where "r = normalize up c"
    by (rule load_data_member)
  then show ?thesis
    by (simp add: normalize_def with_area_creditos_def coerce_def fillna_not_nan)
qed

lemma load_example_csv:
  "load_data upper_latin1 (Inr example_csv) =
     [\<lparr>Codigo = lit ''MAT101'', Disciplina = lit ''Algebra Linear'', Nota = Fin 8, Horas = Fin 44,
       Ano = 2020, Area = Matematica, Creditos = 2\<rparr>,
      \<lparr>Codigo = lit ''FIS201'', Disciplina = lit ''Mecanica'', Nota = Fin 0, Horas = Fin 15,
       Ano = 2020, Area = Fisica, Creditos = 1\<rparr>,
      \<lparr>Codigo = lit ''HUM300'', Disciplina = lit ''Filosofia'', Nota = Fin 0, Horas = Fin 0,
       Ano = 2021, Area = Outras, Creditos = 0\<rparr>]"
  by (simp add: example_csv_def eval_load)

lemma finite_hours_example_csv: "list_all finite_hours example_csv"
  by (simp add: example_csv_def finite_hours_def)

text \<open>
  C7 (as amended). The loader raises nothing, whatever the file holds: it always
  returns a table. For every transcript none of whose hours reads as an infinity, it
  keeps every record, in order, and puts 0.0 in the place of each grade and each hours
  figure that is no number or is missing. (When the hours of some line read as an
  infinity, the integer conversion of the credits fails inside the loader and the table
  comes back empty.)
\<close>

theorem load_data_coerces_and_keeps:
  "(list_all finite_hours csv \<longrightarrow>
      length (load_data up (Inr csv)) = length csv
      \<and> (\<forall>i<length csv.
            Codigo (load_data up (Inr csv) ! i) = csv_Codigo (csv ! i)
            \<and> Disciplina (load_data up (Inr csv) ! i) = csv_Disciplina (csv ! i)
            \<and> Ano (load_data up (Inr csv) ! i) = csv_Ano (csv ! i)
            \<and> Nota (load_data up (Inr csv) ! i) = fillna 0 (to_numeric (csv_Nota (csv ! i)))
            \<and> Horas (load_data up (Inr csv) ! i) = fillna 0 (to_numeric (csv_Horas (csv ! i)))
            \<and> (csv_Nota (csv ! i) = Unparsable \<or> csv_Nota (csv ! i) = Missing
                 \<longrightarrow> Nota (load_data up (Inr csv) ! i) = Fin 0)
            \<and> (csv_Horas (csv ! i) = Unparsable \<or> csv_Horas (csv ! i) = Missing
                 \<longrightarrow> Horas (load_data up (Inr csv) ! i) = Fin 0)))
   \<and> (\<not> list_all finite_hours csv \<longrightarrow> load_data up (Inr csv) = [])
   \<and> load_data up (Inl e) = []"
proof -
  have "Codigo (normalize up c) = csv_Codigo c
        \<and> Disciplina (normalize up c) = csv_Disciplina c
        \<and> Ano (normalize up c) = csv_Ano c
        \<and> Nota (normalize up c) = fillna 0 (to_numeric (csv_Nota c))
        \<and> Horas (normalize up c) = fillna 0 (to_numeric (csv_Horas c))
        \<and> (csv_Nota c = Unparsable \<or> csv_Nota c = Missing \<longrightarrow> Nota (normalize up c) = Fin 0)
        \<and> (csv_Horas c = Unparsable \<or> csv_Horas c = Missing \<longrightarrow> Horas (normalize up c) = Fin 0)"
    for c
    by (auto simp: normalize_def with_area_creditos_def coerce_def)
  then show ?thesis
    by (simp add: load_data_Inr load_data_Inl)
qed

theorem load_data_coerces_and_keeps_witness:
  "list_all finite_hours example_csv
   \<and> length (load_data upper_latin1 (Inr example_csv)) = 3
   \<and> csv_Nota (example_csv ! 1) = Unparsable
   \<and> Nota (load_data upper_latin1 (Inr example_csv) ! 1) = Fin 0
   \<and> csv_Nota (example_csv ! 2) = Missing
   \<and> Nota (load_data upper_latin1 (Inr example_csv) ! 2) = Fin 0
   \<and> csv_Horas (example_csv ! 2) = Unparsable
   \<and> Horas (load_data upper_latin1 (Inr example_csv) ! 2) = Fin 0
   \<and> \<not> list_all finite_hours infinite_hours_csv
   \<and> load_data upper_latin1 (Inr infinite_hours_csv) = []"
proof -
  have l: "length example_csv = 3"
    and c: "csv_Nota (example_csv ! 1) = Unparsable" "csv_Nota (example_csv ! 2) = Missing"
      "csv_Horas (example_csv ! 2) = Unparsable"
    by (simp_all add: example_csv_def)
  have n: "\<not> list_all finite_hours infinite_hours_csv"
    by (simp add: infinite_hours_csv_def finite_hours_def)
  have "(1::nat) < 3" and "(2::nat) < 3" by simp_all
  with load_data_coerces_and_keeps [of example_csv upper_latin1]
    load_data_coerces_and_keeps [of infinite_hours_csv upper_latin1]
    finite_hours_example_csv l c n
  show ?thesis by simp
qed

text \<open>
  C7 as stated fails: the grade of the first line is no number and its hours are 60,
  the hours of the second line read as an infinity, and the loader returns the empty
  table: the first record is dropped with the rest.
\<close>

theorem load_data_infinite_hours_counterexample:
  "csv_Nota (infinite_hours_csv ! 0) = Unparsable
   \<and> csv_Horas (infinite_hours_csv ! 0) = Parsed (Fin 60)
   \<and> csv_Horas (infinite_hours_csv ! 1) = Parsed PInf
   \<and> load_data upper_latin1 (Inr infinite_hours_csv) = []"
  by (simp add: infinite_hours_csv_def eval_load)

lemma double_numerals: "double 15 = 15" "double 44 = 44"
  by (simp_all add: eval_double)

text \<open>
  C5 (as amended). In a transcript none of whose hours reads as an infinity, a line
  whose hours are a number \<open>h\<close> of the range \<open>0 \<le> h < 2\<^sup>5\<^sup>3\<close> (\<open>h\<close> as a float, that is
  \<open>double h\<close>) gives a record with the credits \<open>\<lfloor>h / 15\<rfloor>\<close>, a non-negative integer: 0
  for \<open>h\<close> below 15, 1 for 15, 2 for 44. The same holds of every record that the loader
  produces with such hours.
\<close>

theorem load_data_Creditos_floor:
  "(list_all finite_hours csv \<and> i < length csv \<and> csv_Horas (csv ! i) = Parsed (Fin h)
      \<and> 0 \<le> double h \<and> double h < 2 ^ 53 \<longrightarrow>
      Horas (load_data up (Inr csv) ! i) = Fin h
      \<and> Creditos (load_data up (Inr csv) ! i) = \<lfloor>double h / 15\<rfloor>
      \<and> 0 \<le> Creditos (load_data up (Inr csv) ! i)
      \<and> (double h < 15 \<longrightarrow> Creditos (load_data up (Inr csv) ! i) = 0)
      \<and> (h = 15 \<longrightarrow> Creditos (load_data up (Inr csv) ! i) = 1)
      \<and> (h = 44 \<longrightarrow> Creditos (load_data up (Inr csv) ! i) = 2))
   \<and> (r \<in> set (load_data up src) \<and> Horas r = Fin h \<and> 0 \<le> double h \<and> double h < 2 ^ 53 \<longrightarrow>
      Creditos r = \<lfloor>double h / 15\<rfloor> \<and> 0 \<le> Creditos r
      \<and> (double h < 15 \<longrightarrow> Creditos r = 0))"
proof -
  have A: "Creditos r = \<lfloor>double h / 15\<rfloor> \<and> 0 \<le> Creditos r \<and> (double h < 15 \<longrightarrow> Creditos r = 0)"
    if "r \<in> set (load_data up src)" "Horas r = Fin h" "0 \<le> double h" "double h < 2 ^ 53"
    for r :: row and src
  proof -
    from that(3,4) have "\<bar>double h\<bar> < 2 ^ 53" by simp
    from Creditos_of_Horas [OF that(1,2) this] that(3) show ?thesis
      by (simp add: floor_15_facts)
  qed
  have B: "Horas (load_data up (Inr csv) ! i) = Fin h
      \<and> Creditos (load_data up (Inr csv) ! i) = \<lfloor>double h / 15\<rfloor>
      \<and> 0 \<le> Creditos (load_data up (Inr csv) ! i)
      \<and> (double h < 15 \<longrightarrow> Creditos (load_data up (Inr csv) ! i) = 0)
      \<and> (h = 15 \<longrightarrow> Creditos (load_data up (Inr csv) ! i) = 1)
      \<and> (h = 44 \<longrightarrow> Creditos (load_data up (Inr csv) ! i) = 2)"
    if f: "list_all finite_hours csv" and i: "i < length csv"
      and c: "csv_Horas (csv ! i) = Parsed (Fin h)" and h: "0 \<le> double h" "double h < 2 ^ 53"
  proof -
    have n: "load_data up (Inr csv) ! i = normalize up (csv ! i)"
      using f i by (rule load_data_nth)
    have H: "Horas (load_data up (Inr csv) ! i) = Fin h"
      unfolding n using c by (simp add: normalize_def with_area_creditos_def coerce_def)
    have m: "load_data up (Inr csv) ! i \<in> set (load_data up (Inr csv))"
      using f i by (simp add: load_data_Inr)
    from A [OF m H h]
    have a: "Creditos (load_data up (Inr csv) ! i) = \<lfloor>double h / 15\<rfloor>"
      and b: "0 \<le> Creditos (load_data up (Inr csv) ! i)"
      and z: "double h < 15 \<longrightarrow> Creditos (load_data up (Inr csv) ! i) = 0"
      by blast+
    have "Creditos (load_data up (Inr csv) ! i) = 1" if "h = 15"
      unfolding a that by (simp add: double_numerals)
    moreover have "Creditos (load_data up (Inr csv) ! i) = 2" if "h = 44"
      unfolding a that by (simp add: double_numerals)
    ultimately show ?thesis
      using H a b z by blast
  qed
  from A B show ?thesis by blast
qed

theorem load_data_Creditos_floor_witness:
  "list_all finite_hours example_csv
   \<and> csv_Horas (example_csv ! 0) = Parsed (Fin 44)
   \<and> Creditos (load_data upper_latin1 (Inr example_csv) ! 0) = 2
   \<and> csv_Horas (example_csv ! 1) = Parsed (Fin 15)
   \<and> Creditos (load_data upper_latin1 (Inr example_csv) ! 1) = 1
   \<and> load_data upper_latin1 (Inr example_csv) ! 0 \<in> set (load_data upper_latin1 (Inr example_csv))
   \<and> Horas (load_data upper_latin1 (Inr example_csv) ! 0) = Fin 44
   \<and> 0 \<le> Creditos (load_data upper_latin1 (Inr example_csv) ! 0)"
proof -
  have m: "load_data upper_latin1 (Inr example_csv) ! 0 \<in> set (load_data upper_latin1 (Inr example_csv))"
    and h: "Horas (load_data upper_latin1 (Inr example_csv) ! 0) = Fin 44"
    by (simp_all add: load_example_csv)
  have c: "csv_Horas (example_csv ! 0) = Parsed (Fin 44)" "csv_Horas (example_csv ! 1) = Parsed (Fin 15)"
    and l: "0 < length example_csv" "1 < length example_csv"
    by (simp_all add: example_csv_def)
  have d: "0 \<le> double 44" "double 44 < 2 ^ 53" "0 \<le> double 15" "double 15 < 2 ^ 53"
    by (simp_all add: double_numerals)
  from load_data_Creditos_floor [of example_csv 0 44 upper_latin1
         "load_data upper_latin1 (Inr example_csv) ! 0" "Inr example_csv"]
       load_data_Creditos_floor [of example_csv 1 15 upper_latin1]
       m h c l d finite_hours_example_csv
  show ?thesis by (simp add: double_numerals)
qed

text \<open>
  C5 as stated fails. Hours of \<open>2 \<cdot> 10\<^sup>1\<^sup>7\<close> give the credits 13333333333333334, where
  \<open>\<lfloor>h / 15\<rfloor>\<close> is 13333333333333333: the floor division is a float operation and
  rounds. And a line with the hours 60 gives no record at all when the hours of another
  line read as an infinity.
\<close>

theorem load_data_large_hours_counterexample:
  "csv_Horas (large_hours_csv ! 0) = Parsed (Fin 200000000000000000)
   \<and> length (load_data upper_latin1 (Inr large_hours_csv)) = 1
   \<and> Creditos (load_data upper_latin1 (Inr large_hours_csv) ! 0) = 13333333333333334
   \<and> \<lfloor>200000000000000000 / 15 :: real\<rfloor> = 13333333333333333
   \<and> csv_Horas (dropped_hours_csv ! 0) = Parsed (Fin 60)
   \<and> csv_Horas (dropped_hours_csv ! 1) = Parsed NInf
   \<and> load_data upper_latin1 (Inr dropped_hours_csv) = []"
  by (simp add: large_hours_csv_def dropped_hours_csv_def eval_load)

text \<open>
  Beyond the 64-bit range the conversion to an integer does not keep the quotient:
  hours of \<open>1.5 \<cdot> 10\<^sup>2\<^sup>0\<close> give the least \<^verbatim>\<open>int64\<close>.
\<close>

lemma creditos_out_of_range:
  "creditos_of (floordiv (Fin 150000000000000000000) 15) = - 9223372036854775808"
  by (simp add: eval_float)

text \<open>
  C4 (as amended). Every record that the loader produces has finite hours \<open>h\<close> (0 where
  the text was no number or was missing), and when the magnitude of \<open>h\<close> is below
  \<open>2\<^sup>5\<^sup>3\<close> its credits are \<open>\<lfloor>h / 15\<rfloor>\<close>: non-negative exactly when the hours are, and
  negative for hours that arrive as a negative number.
\<close>

theorem load_data_Creditos_sign:
  assumes "r \<in> set (load_data up src)"
  shows "\<exists>h. Horas r = Fin h
            \<and> (\<bar>double h\<bar> < 2 ^ 53 \<longrightarrow>
                 Creditos r = \<lfloor>double h / 15\<rfloor>
                 \<and> (0 \<le> Creditos r \<longleftrightarrow> 0 \<le> double h)
                 \<and> (Creditos r < 0 \<longleftrightarrow> double h < 0))"
proof -
  from load_data_Creditos [OF assms] obtain h where h: "Horas r = Fin h"
    by blast
  have "Creditos r = \<lfloor>double h / 15\<rfloor>
        \<and> (0 \<le> Creditos r \<longleftrightarrow> 0 \<le> double h) \<and> (Creditos r < 0 \<longleftrightarrow> double h < 0)"
    if "\<bar>double h\<bar> < 2 ^ 53"
    using Creditos_of_Horas [OF assms h that] by (simp add: floor_15_facts)
  with h show ?thesis by blast
qed

theorem load_data_Creditos_sign_witness:
  "load_data upper_latin1 (Inr example_csv) ! 2 \<in> set (load_data upper_latin1 (Inr example_csv))
   \<and> Horas (load_data upper_latin1 (Inr example_csv) ! 2) = Fin 0
   \<and> \<bar>double 0\<bar> < 2 ^ 53
   \<and> 0 \<le> Creditos (load_data upper_latin1 (Inr example_csv) ! 2)"
proof -
  have m: "load_data upper_latin1 (Inr example_csv) ! 2 \<in> set (load_data upper_latin1 (Inr example_csv))"
    and h: "Horas (load_data upper_latin1 (Inr example_csv) ! 2) = Fin 0"
    by (simp_all add: load_example_csv)
  have d: "double 0 = 0" by (simp add: double_def)
  from load_data_Creditos_sign [OF m] h d show ?thesis
    using m by auto
qed

text \<open>
  C4 as stated fails: hours that arrive as the number -30 give the credits -2.
\<close>

theorem load_data_negative_hours_counterexample:
  "csv_Horas (negative_hours_csv ! 0) = Parsed (Fin (- 30))
   \<and> length (load_data upper_latin1 (Inr negative_hours_csv)) = 1
   \<and> Creditos (load_data upper_latin1 (Inr negative_hours_csv) ! 0) = - 2
   \<and> Creditos (load_data upper_latin1 (Inr negative_hours_csv) ! 0) < 0"
  by (simp add: negative_hours_csv_def eval_load)

section \<open>Properties of the academic tab\<close>

lemmas eval_academic = df_acumulado_def groupby_Ano_sum_def total_creditos_def cumsum_def
  pct_acumulado_def fround_def ira_def nansum_def eval_float

subsection \<open>Credits per year and their total\<close>

lemma wrap64_add_left: "wrap64 (wrap64 a + b) = wrap64 (a + b)"
proof -
  have "wrap64 a + b + 2 ^ 63 = (a + 2 ^ 63) mod 2 ^ 64 + b"
    unfolding wrap64_def by linarith
  then have "(wrap64 a + b + 2 ^ 63) mod 2 ^ 64 = ((a + 2 ^ 63) mod 2 ^ 64 + b) mod 2 ^ 64"
    by (rule arg_cong)
  also have "\<dots> = (a + 2 ^ 63 + b) mod 2 ^ 64"
    by (rule mod_add_left_eq)
  also have "a + 2 ^ 63 + b = a + b + 2 ^ 63"
    by linarith
  finally show ?thesis
    unfolding wrap64_def by (rule arg_cong)
qed

lemma wrap64_add_right: "wrap64 (a + wrap64 b) = wrap64 (a + b)"
  using wrap64_add_left [of b a] by (simp only: add.commute)

lemma wrap64_sum_list: "wrap64 (sum_list (map (\<lambda>y. wrap64 (f y)) ys)) = wrap64 (sum_list (map f ys))"
proof (induction ys)
  case Nil
  then show ?case by simp
next
  case (Cons y ys)
  have "wrap64 (wrap64 (f y) + sum_list (map (\<lambda>y. wrap64 (f y)) ys))
      = wrap64 (f y + sum_list (map (\<lambda>y. wrap64 (f y)) ys))"
    by (rule wrap64_add_left)
  also have "\<dots> = wrap64 (f y + wrap64 (sum_list (map (\<lambda>y. wrap64 (f y)) ys)))"
    by (rule wrap64_add_right [symmetric])
  also have "\<dots> = wrap64 (f y + wrap64 (sum_list (map f ys)))"
    by (simp only: Cons.IH)
  also have "\<dots> = wrap64 (f y + sum_list (map f ys))"
    by (rule wrap64_add_right)
  finally show ?case by simp
qed

lemma sum_list_delta_notin:
  "k \<notin> set ys \<Longrightarrow> (\<Sum>y\<leftarrow>ys. if k = y then (v::int) else 0) = 0"
  by (induction ys) auto

lemma sum_list_delta:
  assumes "distinct ys" and "k \<in> set ys"
  shows "(\<Sum>y\<leftarrow>ys. if k = y then (v::int) else 0) = v"
  using assms by (induction ys) (auto simp: sum_list_delta_notin)

text \<open>Summing group by group, over the distinct keys, is summing the whole column.\<close>

lemma sum_list_groups:
  assumes "distinct ys" and "f ` set xs \<subseteq> set ys"
  shows "(\<Sum>y\<leftarrow>ys. sum_list (map g (filter (\<lambda>x. f x = y) xs))) = (sum_list (map g xs) :: int)"
  using assms(2)
proof (induction xs)
  case Nil
  then show ?case by simp
next
  case (Cons x xs)
  then have k: "f x \<in> set ys"
    and IH: "(\<Sum>y\<leftarrow>ys. sum_list (map g (filter (\<lambda>x. f x = y) xs))) = sum_list (map g xs)"
    by auto
  have "(\<Sum>y\<leftarrow>ys. sum_list (map g (filter (\<lambda>z. f z = y) (x # xs))))
      = (\<Sum>y\<leftarrow>ys. (if f x = y then g x else 0) + sum_list (map g (filter (\<lambda>z. f z = y) xs)))"
    by (rule arg_cong [where f = sum_list]) auto
  also have "\<dots> = (\<Sum>y\<leftarrow>ys. if f x = y then g x else 0)
                  + (\<Sum>y\<leftarrow>ys. sum_list (map g (filter (\<lambda>z. f z = y) xs)))"
    by (simp add: sum_list_addf)
  also have "\<dots> = g x + sum_list (map g xs)"
    using sum_list_delta [OF assms(1) k] IH by simp
  finally show ?case by simp
qed

text \<open>The total of the credits is the sum of the whole column, in 64 bits.\<close>

lemma total_creditos_sum: "total_creditos df = wrap64 (sum_list (map Creditos df))"
proof -
  have "total_creditos df
      = wrap64 (\<Sum>y\<leftarrow>sort (remdups (map Ano df)).
                  wrap64 (sum_list (map Creditos (filter (\<lambda>r. Ano r = y) df))))"
    by (simp add: total_creditos_def groupby_Ano_sum_def comp_def)
  also have "\<dots> = wrap64 (\<Sum>y\<leftarrow>sort (remdups (map Ano df)).
                  sum_list (map Creditos (filter (\<lambda>r. Ano r = y) df)))"
    by (rule wrap64_sum_list)
  also have "(\<Sum>y\<leftarrow>sort (remdups (map Ano df)).
                  sum_list (map Creditos (filter (\<lambda>r. Ano r = y) df))) = sum_list (map Creditos df)"
    by (rule sum_list_groups) auto
  finally show ?thesis .
qed

subsection \<open>The cumulative percentage\<close>

text \<open>
  C3 holds in part only. For the filtered table of one discipline of 10 hours, which is
  not empty and has a total of 0 credits, no error is raised, but the cumulative
  percentage of its year is \<^verbatim>\<open>NaN\<close> (the float division \<^verbatim>\<open>0 / 0\<close>), not 0.0. The
  grade average of the same table, which the code guards with
  \<^verbatim>\<open>if total_creditos > 0 else 0\<close>, is 0.
\<close>

theorem df_acumulado_zero_credits_is_NaN:
  "zero_credit_df \<noteq> []
   \<and> total_creditos zero_credit_df = 0
   \<and> df_acumulado zero_credit_df
       = [\<lparr>ac_Ano = 2020, ac_Creditos = 0, Acumulado = 0, Pct_Acumulado = NaN\<rparr>]
   \<and> Pct_Acumulado (hd (df_acumulado zero_credit_df)) \<noteq> Fin 0
   \<and> ira zero_credit_df = Fin 0"
  by (simp add: zero_credit_df_def eval_academic)

subsection \<open>The grade average\<close>

lemma fl_not_nan: "\<not> isnan (fl x)"
proof (cases "2 ^ 1024 \<le> \<bar>double x\<bar>")
  case True
  then have "double x \<noteq> 0" by auto
  then have "x \<noteq> 0" by (auto simp: double_def)
  with True show ?thesis by (simp add: fl_def inf_of_sign_def)
next
  case False
  then show ?thesis by (simp add: fl_def)
qed

text \<open>The product of a finite grade and the credits is no \<^verbatim>\<open>NaN\<close>.\<close>

lemma finite_product_not_nan: "isfinite g \<Longrightarrow> \<not> isnan (fmul g (Fin c))"
  by (cases g) (simp_all add: fl_not_nan)

text \<open>Where no term is \<^verbatim>\<open>NaN\<close>, the sum that skips such terms is the plain sum.\<close>

lemma nansum_fsum: "list_all (\<lambda>x. \<not> isnan x) xs \<Longrightarrow> nansum xs = fsum xs"
  by (simp add: nansum_def fsum_def list_all_iff)

lemma ira_spec:
  assumes "list_all (\<lambda>r. \<not> isnan (fmul (Nota r) (Fin (of_int (Creditos r))))) df"
    and "0 \<le> total_creditos df"
  shows "ira df = weighted_gpa_spec df"
proof -
  have "list_all (\<lambda>x. \<not> isnan x) (map (\<lambda>r. fmul (Nota r) (Fin (of_int (Creditos r)))) df)"
    using assms(1) by (simp add: list_all_iff)
  then have "nansum (map (\<lambda>r. fmul (Nota r) (Fin (of_int (Creditos r)))) df)
           = fsum (map (\<lambda>r. fmul (Nota r) (Fin (of_int (Creditos r)))) df)"
    by (rule nansum_fsum)
  then show ?thesis
    using assms(2) by (auto simp: ira_def weighted_gpa_spec_def total_creditos_sum)
qed

lemma load_inf_grade_csv: "load_data upper_latin1 (Inr inf_grade_csv) = inf_grade_df"
  by (simp add: inf_grade_csv_def inf_grade_df_def eval_load)

text \<open>
  C6 (as amended). For every filtered table whose total of credits is positive and in
  which no product of a grade and its credits is \<^verbatim>\<open>NaN\<close>, as in every table of finite
  grades, the grade average is the sum of grade times credits divided by the sum of the
  credits, in float arithmetic. For every filtered table whose credits sum to 0 it is 0
  (a number: no error and no \<^verbatim>\<open>NaN\<close>). The records of grade 8 with 2 credits and grade
  6 with 4 credits give the double nearest to \<open>(16 + 24) / 6\<close>, shown as 6.67.
\<close>

theorem ira_weighted_mean:
  "(list_all (\<lambda>r. \<not> isnan (fmul (Nota r) (Fin (of_int (Creditos r))))) df
      \<and> 0 < total_creditos df \<longrightarrow>
      ira df = weighted_gpa_spec df
      \<and> ira df = fdiv (fsum (map (\<lambda>r. fmul (Nota r) (Fin (of_int (Creditos r)))) df))
                   (Fin (of_int (wrap64 (sum_list (map Creditos df))))))
   \<and> (list_all (\<lambda>r. isfinite (Nota r)) df \<and> 0 < total_creditos df \<longrightarrow>
      ira df = weighted_gpa_spec df)
   \<and> (total_creditos df = 0 \<longrightarrow> ira df = Fin 0 \<and> ira df = weighted_gpa_spec df)
   \<and> total_creditos df = wrap64 (sum_list (map Creditos df))
   \<and> ira gpa_df = Fin (double ((16 + 24) / 6))
   \<and> ira_shown gpa_df = Some 6.67"
proof -
  have 1: "ira df = weighted_gpa_spec df
      \<and> ira df = fdiv (fsum (map (\<lambda>r. fmul (Nota r) (Fin (of_int (Creditos r)))) df))
                   (Fin (of_int (wrap64 (sum_list (map Creditos df)))))"
    if "list_all (\<lambda>r. \<not> isnan (fmul (Nota r) (Fin (of_int (Creditos r))))) df"
      and "0 < total_creditos df"
  proof -
    from that have s: "ira df = weighted_gpa_spec df"
      by (simp add: ira_spec)
    from that(2) have "wrap64 (sum_list (map Creditos df)) \<noteq> 0"
      by (simp add: total_creditos_sum)
    then show ?thesis
      unfolding s by (simp add: weighted_gpa_spec_def)
  qed
  have 2: "ira df = weighted_gpa_spec df"
    if "list_all (\<lambda>r. isfinite (Nota r)) df" and "0 < total_creditos df"
  proof -
    from that(1) have "list_all (\<lambda>r. \<not> isnan (fmul (Nota r) (Fin (of_int (Creditos r))))) df"
      by (simp add: list_all_iff finite_product_not_nan)
    with that(2) show ?thesis by (simp add: ira_spec)
  qed
  have 3: "ira df = Fin 0 \<and> ira df = weighted_gpa_spec df" if "total_creditos df = 0"
    using that by (simp add: ira_def weighted_gpa_spec_def flip: total_creditos_sum)
  have 4: "ira gpa_df = Fin (double ((16 + 24) / 6))"
    by (simp add: gpa_df_def eval_academic)
  have 5: "ira_shown gpa_df = Some 6.67"
    unfolding ira_shown_def 4 by (simp add: eval_float)
  from 1 2 3 4 5 total_creditos_sum [of df] show ?thesis
    by blast
qed

theorem ira_weighted_mean_witness:
  "list_all (\<lambda>r. isfinite (Nota r)) gpa_df
   \<and> list_all (\<lambda>r. \<not> isnan (fmul (Nota r) (Fin (of_int (Creditos r))))) gpa_df
   \<and> 0 < total_creditos gpa_df
   \<and> ira gpa_df = weighted_gpa_spec gpa_df
   \<and> total_creditos zero_credit_df = 0
   \<and> ira zero_credit_df = Fin 0"
proof -
  have f: "list_all (\<lambda>r. isfinite (Nota r)) gpa_df"
    by (simp add: gpa_df_def)
  then have n: "list_all (\<lambda>r. \<not> isnan (fmul (Nota r) (Fin (of_int (Creditos r))))) gpa_df"
    by (simp add: list_all_iff finite_product_not_nan)
  have p: "0 < total_creditos gpa_df"
    by (simp add: total_creditos_sum gpa_df_def wrap64_def)
  have z: "total_creditos zero_credit_df = 0"
    by (simp add: total_creditos_sum zero_credit_df_def wrap64_def)
  from ira_weighted_mean [of gpa_df] ira_weighted_mean [of zero_credit_df] f n p z
  show ?thesis by blast
qed

text \<open>
  C6 as stated fails. In the table that the loader makes of a transcript whose first
  grade reads as an infinity, with hours that give no credit, the total of the credits
  is 4 and the grade average is 6: the product of the infinity and 0 is \<^verbatim>\<open>NaN\<close>, and
  the sum skips it. The quotient of the sums, as the claim has it, is \<^verbatim>\<open>NaN\<close>.
\<close>

theorem ira_infinite_grade_counterexample:
  "load_data upper_latin1 (Inr inf_grade_csv) = inf_grade_df
   \<and> 0 < total_creditos inf_grade_df
   \<and> ira inf_grade_df = Fin 6
   \<and> weighted_gpa_spec inf_grade_df = NaN"
proof -
  have "0 < total_creditos inf_grade_df" and "ira inf_grade_df = Fin 6"
    by (simp_all add: inf_grade_df_def eval_academic)
  moreover have "weighted_gpa_spec inf_grade_df = NaN"
    by (simp add: inf_grade_df_def weighted_gpa_spec_def fsum_def eval_float)
  ultimately show ?thesis
    by (simp add: load_inf_grade_csv)
qed

subsection \<open>The ten best grades\<close>

text \<open>Every table that the loader and the filter hand over has grades that are numbers.\<close>

lemma filtered_df_Nota_not_nan:
  "list_all (\<lambda>r. \<not> isnan (Nota r)) (filtered_df (load_data up src) anos areas)"
  by (auto simp: list_all_iff filtered_df_def load_data_Nota_not_nan)

text \<open>On grades that are numbers, the sort key orders as the comparison of floats does.\<close>

lemma desc_key_le: "\<not> isnan a \<Longrightarrow> \<not> isnan b \<Longrightarrow> desc_key a \<le> desc_key b \<longleftrightarrow> fle b a"
  by (cases a; cases b) (simp_all add: less_eq_prod_def)

lemma desc_key_less:
  "\<not> isnan a \<Longrightarrow> \<not> isnan b \<Longrightarrow> desc_key a \<le> desc_key b \<Longrightarrow> desc_key a \<noteq> desc_key b \<Longrightarrow> flt b a"
  by (cases a; cases b) (simp_all add: less_eq_prod_def)

lemma desc_key_same: "\<not> isnan g \<Longrightarrow> same_grade a g \<longleftrightarrow> desc_key a = desc_key g"
  by (cases a; cases g) (auto simp: same_grade_def)

lemma same_grade_NaN: "isnan g \<Longrightarrow> \<not> same_grade a g"
  by (cases g) (simp_all add: same_grade_def)

lemma desc_key_finite:
  "isfinite a \<Longrightarrow> isfinite b \<Longrightarrow> desc_key a = desc_key b \<Longrightarrow> fin_value a = fin_value b"
  by (cases a; cases b) simp_all

lemma top_Nota_top_columns: "top_Nota (top_columns r) = Nota r"
  by (simp add: top_columns_def)

lemma sorted_desc_key:
  "sorted_wrt (\<lambda>a b. desc_key (Nota a) \<le> desc_key (Nota b)) (sort_key (\<lambda>r. desc_key (Nota r)) df)"
  using sorted_sort_key [of "\<lambda>r. desc_key (Nota r)" df]
  by (simp add: sorted_map)

lemma length_nlargest: "length (nlargest n df) = min n (length df)"
  by (simp add: nlargest_def min.commute)

lemma nlargest_not_nan:
  assumes "list_all (\<lambda>r. \<not> isnan (Nota r)) df" and "a \<in> set (nlargest n df)"
  shows "\<not> isnan (Nota a)"
proof -
  from assms(2) have "a \<in> set df"
    by (auto simp: nlargest_def dest!: in_set_takeD)
  with assms(1) show ?thesis
    by (auto simp: list_all_iff)
qed

lemma nlargest_sorted:
  assumes "list_all (\<lambda>r. \<not> isnan (Nota r)) df"
  shows "sorted_wrt (\<lambda>a b. fle (Nota b) (Nota a)) (nlargest n df)"
proof -
  have "sorted_wrt (\<lambda>a b. desc_key (Nota a) \<le> desc_key (Nota b)) (nlargest n df)"
    unfolding nlargest_def by (rule sorted_wrt_take) (rule sorted_desc_key)
  moreover have "fle (Nota b) (Nota a)"
    if "a \<in> set (nlargest n df)" "b \<in> set (nlargest n df)"
      "desc_key (Nota a) \<le> desc_key (Nota b)" for a b
    using that nlargest_not_nan [OF assms] by (simp add: desc_key_le)
  ultimately show ?thesis
    by (rule sorted_wrt_mono_rel [rotated])
qed

text \<open>What is left out has no better grade than what is kept.\<close>

lemma nlargest_rest:
  assumes "list_all (\<lambda>r. \<not> isnan (Nota r)) df"
  shows "\<exists>rest. mset df = mset (nlargest n df) + mset rest
           \<and> (\<forall>a\<in>set (nlargest n df). \<forall>b\<in>set rest. fle (Nota b) (Nota a))"
proof -
  let ?s = "sort_key (\<lambda>r. desc_key (Nota r)) df"
  have "mset df = mset (take n ?s) + mset (drop n ?s)"
    by (metis append_take_drop_id mset_append mset_sort)
  moreover have "fle (Nota b) (Nota a)" if "a \<in> set (take n ?s)" "b \<in> set (drop n ?s)" for a b
  proof -
    have "sorted_wrt (\<lambda>a b. desc_key (Nota a) \<le> desc_key (Nota b)) (take n ?s @ drop n ?s)"
      using sorted_desc_key [of df] by simp
    with that have k: "desc_key (Nota a) \<le> desc_key (Nota b)"
      unfolding sorted_wrt_append by blast
    from that have "a \<in> set df" "b \<in> set df"
      by (auto dest!: in_set_takeD in_set_dropD)
    with assms have "\<not> isnan (Nota a)" "\<not> isnan (Nota b)"
      by (auto simp: list_all_iff)
    with k show ?thesis by (simp add: desc_key_le)
  qed
  ultimately show ?thesis
    unfolding nlargest_def by blast
qed

text \<open>The records of one grade come out in the order of the table, the first ones first.\<close>

lemma nlargest_stable:
  "prefix (filter (\<lambda>r. same_grade (Nota r) g) (nlargest n df))
          (filter (\<lambda>r. same_grade (Nota r) g) df)"
proof (cases "isnan g")
  case True
  then show ?thesis by (simp add: same_grade_NaN)
next
  case False
  have "filter (\<lambda>r. desc_key (Nota r) = desc_key g) (sort_key (\<lambda>r. desc_key (Nota r)) df)
      = filter (\<lambda>r. desc_key (Nota r) = desc_key g) df"
    by (rule sort_key_stable)
  then have "filter (\<lambda>r. same_grade (Nota r) g) (sort_key (\<lambda>r. desc_key (Nota r)) df)
           = filter (\<lambda>r. same_grade (Nota r) g) df"
    using False by (simp add: desc_key_same)
  then show ?thesis
    unfolding nlargest_def
    by (metis filter_mono_prefix take_is_prefix)
qed

lemma sorted_wrt_distinct:
  "sorted_wrt P xs \<Longrightarrow> distinct (map f xs) \<Longrightarrow> sorted_wrt (\<lambda>a b. P a b \<and> f a \<noteq> f b) xs"
  by (induction xs) auto

lemma distinct_key_nlargest:
  assumes "list_all (\<lambda>r. isfinite (Nota r)) df"
    and "distinct (map (\<lambda>r. fin_value (Nota r)) df)"
  shows "distinct (map (\<lambda>r. desc_key (Nota r)) (nlargest n df))"
proof -
  from assms(2) have d: "distinct df" and i: "inj_on (\<lambda>r. fin_value (Nota r)) (set df)"
    by (simp_all add: distinct_map)
  have "inj_on (\<lambda>r. desc_key (Nota r)) (set df)"
  proof (rule inj_onI)
    fix x y
    assume x: "x \<in> set df" and y: "y \<in> set df"
      and k: "desc_key (Nota x) = desc_key (Nota y)"
    from assms(1) x y have "isfinite (Nota x)" "isfinite (Nota y)"
      by (auto simp: list_all_iff)
    with k have "fin_value (Nota x) = fin_value (Nota y)"
      by (rule desc_key_finite [rotated 2])
    with i x y show "x = y"
      by (auto dest: inj_onD)
  qed
  with d have "distinct (map (\<lambda>r. desc_key (Nota r)) (sort_key (\<lambda>r. desc_key (Nota r)) df))"
    by (simp add: distinct_map)
  then have "distinct (take n (map (\<lambda>r. desc_key (Nota r)) (sort_key (\<lambda>r. desc_key (Nota r)) df)))"
    by (rule distinct_take)
  then show ?thesis
    by (simp add: nlargest_def take_map)
qed

lemma nlargest_strict:
  assumes "list_all (\<lambda>r. isfinite (Nota r)) df"
    and "distinct (map (\<lambda>r. fin_value (Nota r)) df)"
  shows "sorted_wrt (\<lambda>a b. flt (Nota b) (Nota a)) (nlargest n df)"
proof -
  from assms(1) have nn: "list_all (\<lambda>r. \<not> isnan (Nota r)) df"
    by (auto simp: list_all_iff isfinite_iff)
  have "sorted_wrt (\<lambda>a b. desc_key (Nota a) \<le> desc_key (Nota b)) (nlargest n df)"
    unfolding nlargest_def by (rule sorted_wrt_take) (rule sorted_desc_key)
  then have "sorted_wrt (\<lambda>a b. desc_key (Nota a) \<le> desc_key (Nota b)
                              \<and> desc_key (Nota a) \<noteq> desc_key (Nota b)) (nlargest n df)"
    using distinct_key_nlargest [OF assms] by (rule sorted_wrt_distinct)
  moreover have "flt (Nota b) (Nota a)"
    if "a \<in> set (nlargest n df)" "b \<in> set (nlargest n df)"
      "desc_key (Nota a) \<le> desc_key (Nota b) \<and> desc_key (Nota a) \<noteq> desc_key (Nota b)" for a b
    using that nlargest_not_nan [OF nn] by (simp add: desc_key_less)
  ultimately show ?thesis
    by (rule sorted_wrt_mono_rel [rotated])
qed

text \<open>The selection on two tables: twelve different grades, and a grade held three times.\<close>

lemma nlargest_twelve_df:
  "map top_Nota (top_disciplinas twelve_df) =
     [Fin 10, Fin 9.5, Fin 9, Fin 8.5, Fin 8, Fin 7.5, Fin 7, Fin 6.5, Fin 6, Fin 5.5]"
  by (simp add: top_disciplinas_def top_columns_def twelve_df_def nlargest_def graded_def
      less_eq_prod_def eval_double)

lemma nlargest_tied_df:
  "nlargest 3 tied_df = [graded 1 9, graded 0 7, graded 2 7]"
  by (simp add: tied_df_def nlargest_def graded_def less_eq_prod_def eval_double)

text \<open>
  C8. The table of the best grades is the selection of 10 records by grade, reduced to
  the columns of the name, the grade, the credits and the area. For every table whose
  grades are numbers (as they are in every table that the loader and the filter hand
  over, by \<open>filtered_df_Nota_not_nan\<close>) it holds 10 records, or all of them when the
  table has fewer; it is in descending order of the grade; no record left out has a
  higher grade than a record kept; and the records of one grade that are kept are the
  first ones of the table with that grade, in the order of the table. The same holds of
  the selection of any number \<open>n\<close> of records. For 12 records of different finite grades
  the table of the best grades holds exactly 10 records, in strictly descending order.
\<close>

theorem top_disciplinas_top_by_grade:
  assumes "list_all (\<lambda>r. \<not> isnan (Nota r)) df"
  shows "top_disciplinas df = map top_columns (nlargest 10 df)
       \<and> length (top_disciplinas df) = min 10 (length df)
       \<and> sorted_wrt (\<lambda>a b. fle (top_Nota b) (top_Nota a)) (top_disciplinas df)
       \<and> (\<exists>kept rest. top_disciplinas df = map top_columns kept
             \<and> mset df = mset kept + mset rest
             \<and> (\<forall>a\<in>set (top_disciplinas df). \<forall>b\<in>set rest. fle (Nota b) (top_Nota a)))
       \<and> (\<forall>g. prefix (filter (\<lambda>t. same_grade (top_Nota t) g) (top_disciplinas df))
                      (map top_columns (filter (\<lambda>r. same_grade (Nota r) g) df)))
       \<and> length (nlargest n df) = min n (length df)
       \<and> sorted_wrt (\<lambda>a b. fle (Nota b) (Nota a)) (nlargest n df)
       \<and> (\<exists>rest. mset df = mset (nlargest n df) + mset rest
             \<and> (\<forall>a\<in>set (nlargest n df). \<forall>b\<in>set rest. fle (Nota b) (Nota a)))
       \<and> (\<forall>g. prefix (filter (\<lambda>r. same_grade (Nota r) g) (nlargest n df))
                      (filter (\<lambda>r. same_grade (Nota r) g) df))
       \<and> (list_all (\<lambda>r. isfinite (Nota r)) df
            \<and> distinct (map (\<lambda>r. fin_value (Nota r)) df) \<and> length df = 12 \<longrightarrow>
             length (top_disciplinas df) = 10
             \<and> sorted_wrt (\<lambda>a b. flt (top_Nota b) (top_Nota a)) (top_disciplinas df))"
proof -
  have 1: "length (top_disciplinas df) = min 10 (length df)"
    by (simp add: top_disciplinas_def length_nlargest)
  have 2: "sorted_wrt (\<lambda>a b. fle (top_Nota b) (top_Nota a)) (top_disciplinas df)"
    using nlargest_sorted [OF assms, of 10]
    by (simp add: top_disciplinas_def sorted_wrt_map top_Nota_top_columns)
  have 3: "\<exists>kept rest. top_disciplinas df = map top_columns kept
             \<and> mset df = mset kept + mset rest
             \<and> (\<forall>a\<in>set (top_disciplinas df). \<forall>b\<in>set rest. fle (Nota b) (top_Nota a))"
  proof -
    from nlargest_rest [OF assms, of 10] obtain rest
      where m: "mset df = mset (nlargest 10 df) + mset rest"
        and r: "\<forall>a\<in>set (nlargest 10 df). \<forall>b\<in>set rest. fle (Nota b) (Nota a)"
      by blast
    from r have "\<forall>a\<in>set (top_disciplinas df). \<forall>b\<in>set rest. fle (Nota b) (top_Nota a)"
      by (auto simp: top_disciplinas_def top_Nota_top_columns)
    with m show ?thesis
      unfolding top_disciplinas_def by blast
  qed
  have 4: "prefix (filter (\<lambda>t. same_grade (top_Nota t) g) (top_disciplinas df))
                  (map top_columns (filter (\<lambda>r. same_grade (Nota r) g) df))" for g
  proof -
    have "filter (\<lambda>t. same_grade (top_Nota t) g) (top_disciplinas df)
        = map top_columns (filter (\<lambda>r. same_grade (Nota r) g) (nlargest 10 df))"
      by (simp add: top_disciplinas_def filter_map comp_def top_Nota_top_columns)
    then show ?thesis
      using nlargest_stable [of g 10 df] by (simp add: map_mono_prefix)
  qed
  have 5: "length (top_disciplinas df) = 10
         \<and> sorted_wrt (\<lambda>a b. flt (top_Nota b) (top_Nota a)) (top_disciplinas df)"
    if "list_all (\<lambda>r. isfinite (Nota r)) df"
      and "distinct (map (\<lambda>r. fin_value (Nota r)) df)" and "length df = 12"
    using nlargest_strict [OF that(1,2), of 10] that(3)
    by (simp add: top_disciplinas_def length_nlargest sorted_wrt_map top_Nota_top_columns)
  from 1 2 3 4 5 nlargest_sorted [OF assms, of n] nlargest_rest [OF assms, of n]
    nlargest_stable [of _ n df] length_nlargest [of n df]
  show ?thesis
    unfolding top_disciplinas_def [symmetric] by (intro conjI allI impI) (simp_all add: top_disciplinas_def)
qed

theorem top_disciplinas_top_by_grade_witness:
  "list_all (\<lambda>r. \<not> isnan (Nota r)) twelve_df
   \<and> list_all (\<lambda>r. isfinite (Nota r)) twelve_df
   \<and> distinct (map (\<lambda>r. fin_value (Nota r)) twelve_df) \<and> length twelve_df = 12
   \<and> length (top_disciplinas twelve_df) = 10
   \<and> sorted_wrt (\<lambda>a b. flt (top_Nota b) (top_Nota a)) (top_disciplinas twelve_df)"
proof -
  have a: "list_all (\<lambda>r. \<not> isnan (Nota r)) twelve_df"
    and f: "list_all (\<lambda>r. isfinite (Nota r)) twelve_df"
    and l: "length twelve_df = 12"
    by (simp_all add: twelve_df_def graded_def)
  have d: "distinct (map (\<lambda>r. fin_value (Nota r)) twelve_df)"
    by (simp add: twelve_df_def graded_def eval_double)
  from top_disciplinas_top_by_grade [OF a, of 10] f d l show ?thesis
    using a by blast
qed

section \<open>Properties of the career tab\<close>

lemmas eval_career = initial_ratings_def benchmark_Competencia_def benchmark_Benchmark_def
  create_career_assessment_def DataFrame_def

lemma length_benchmark_Benchmark: "length benchmark_Benchmark = 10"
  by (simp add: benchmark_Benchmark_def)

lemma distinct_benchmark_Benchmark: "distinct benchmark_Benchmark"
  by (simp add: benchmark_Benchmark_def)

lemma length_initial_ratings: "length initial_ratings = 10"
  by (simp add: initial_ratings_def benchmark_Competencia_def)

lemma length_swapped_ratings: "length swapped_ratings = 10"
  by (simp add: swapped_ratings_def length_initial_ratings)

lemma length_unknown_key_ratings: "length unknown_key_ratings = 10"
  by (simp add: unknown_key_ratings_def length_initial_ratings)

lemma zip_fst_snd:
  "zip (map fst xs) (zip (map snd xs) bs) = map (\<lambda>((k, v), b). (k, v, b)) (zip xs bs)"
proof (induction xs arbitrary: bs)
  case Nil
  then show ?case by simp
next
  case (Cons x xs)
  then show ?case by (cases bs) (auto simp: case_prod_unfold)
qed

lemma create_career_assessment_Inr:
  assumes "length ratings = 10"
  shows "create_career_assessment ratings =
    Inr (map (\<lambda>((k, v), b). \<lparr>Competencia = k, Sua_Avaliacao = v, Media_de_Mercado = b\<rparr>)
          (zip ratings benchmark_Benchmark))"
  using assms
  by (simp add: zip_fst_snd create_career_assessment_def DataFrame_def
      length_benchmark_Benchmark case_prod_unfold comp_def)

lemma create_career_assessment_Inl:
  assumes "length ratings \<noteq> 10"
  shows "create_career_assessment ratings = Inl ValueError"
  using assms
  by (simp add: create_career_assessment_def DataFrame_def length_benchmark_Benchmark)

text \<open>
  C2 (as amended). The comparison raises an error, \<^verbatim>\<open>ValueError\<close>, exactly when the
  ratings do not have 10 entries. For ratings of 10 entries it raises nothing, whatever
  the keys are: every key, also one that the benchmark does not list, is kept in the
  table with its rating, next to the benchmark value of its position.
\<close>

theorem create_career_assessment_error_iff_length:
  "(create_career_assessment ratings = Inl ValueError) = (length ratings \<noteq> 10)
   \<and> (isl (create_career_assessment ratings)) = (length ratings \<noteq> 10)
   \<and> (length ratings = 10 \<longrightarrow>
        map Competencia (projr (create_career_assessment ratings)) = map fst ratings
        \<and> map Sua_Avaliacao (projr (create_career_assessment ratings)) = map snd ratings
        \<and> map Media_de_Mercado (projr (create_career_assessment ratings)) = benchmark_Benchmark)"
proof (cases "length ratings = 10")
  case True
  have m: "map fst (zip ratings benchmark_Benchmark) = ratings"
       "map snd (zip ratings benchmark_Benchmark) = benchmark_Benchmark"
    using True by (simp_all add: length_benchmark_Benchmark)
  have "map (\<lambda>x. fst (fst x)) (zip ratings benchmark_Benchmark)
          = map fst (map fst (zip ratings benchmark_Benchmark))"
       "map (\<lambda>x. snd (fst x)) (zip ratings benchmark_Benchmark)
          = map snd (map fst (zip ratings benchmark_Benchmark))"
    by (simp_all add: comp_def)
  then show ?thesis
    using True m by (simp add: create_career_assessment_Inr case_prod_unfold comp_def)
next
  case False
  then show ?thesis by (simp add: create_career_assessment_Inl)
qed

theorem create_career_assessment_error_iff_length_witness:
  "length unknown_key_ratings = 10
   \<and> create_career_assessment unknown_key_ratings \<noteq> Inl ValueError
   \<and> map Competencia (projr (create_career_assessment unknown_key_ratings)) = map fst unknown_key_ratings
   \<and> length (tl initial_ratings) \<noteq> 10
   \<and> create_career_assessment (tl initial_ratings) = Inl ValueError"
  using create_career_assessment_error_iff_length [of unknown_key_ratings]
    create_career_assessment_error_iff_length [of "tl initial_ratings"]
    length_unknown_key_ratings length_initial_ratings
  by simp

text \<open>
  C2 as stated fails: ratings of 10 entries whose first key is a competency that the
  benchmark does not list raise no error; the key is paired with the first benchmark
  value, 3.8.
\<close>

theorem create_career_assessment_unknown_key_counterexample:
  "length unknown_key_ratings = 10
   \<and> fst (hd unknown_key_ratings) \<notin> set benchmark_Competencia
   \<and> \<not> isl (create_career_assessment unknown_key_ratings)
   \<and> hd (projr (create_career_assessment unknown_key_ratings))
       = \<lparr>Competencia = lit ''Culin'' @ [225] @ lit ''ria'', Sua_Avaliacao = 4.0, Media_de_Mercado = 3.8\<rparr>"
  by (simp add: unknown_key_ratings_def eval_career lit_def)

text \<open>
  C10. For ratings of 10 entries, entry \<open>i\<close> of the ratings, in their iteration order, is
  paired with value \<open>i\<close> of the list 3.8, 3.2, 4.1, 3.5, 3.9, 3.4, 4.0, 3.7, 4.2, 3.6:
  the market average of a line depends on its position only. A competency that stands
  at different positions in two ratings gets different market averages in the two
  tables.
\<close>

theorem create_career_assessment_pairs_by_position:
  assumes "length r = 10" and "length r' = 10"
  shows "create_career_assessment r =
           Inr (map (\<lambda>((k, v), b). \<lparr>Competencia = k, Sua_Avaliacao = v, Media_de_Mercado = b\<rparr>)
                 (zip r [3.8, 3.2, 4.1, 3.5, 3.9, 3.4, 4.0, 3.7, 4.2, 3.6]))
         \<and> (\<forall>i<10. Competencia (projr (create_career_assessment r) ! i) = fst (r ! i)
                  \<and> Sua_Avaliacao (projr (create_career_assessment r) ! i) = snd (r ! i)
                  \<and> Media_de_Mercado (projr (create_career_assessment r) ! i)
                      = [3.8, 3.2, 4.1, 3.5, 3.9, 3.4, 4.0, 3.7, 4.2, 3.6] ! i)
         \<and> (\<forall>i<10. \<forall>j<10. i \<noteq> j \<and> fst (r ! i) = fst (r' ! j) \<longrightarrow>
               Competencia (projr (create_career_assessment r) ! i)
                 = Competencia (projr (create_career_assessment r') ! j)
               \<and> Media_de_Mercado (projr (create_career_assessment r) ! i)
                 \<noteq> Media_de_Mercado (projr (create_career_assessment r') ! j))"
proof -
  have nth: "Competencia (projr (create_career_assessment q) ! i) = fst (q ! i)
       \<and> Sua_Avaliacao (projr (create_career_assessment q) ! i) = snd (q ! i)
       \<and> Media_de_Mercado (projr (create_career_assessment q) ! i) = benchmark_Benchmark ! i"
    if "length q = 10" and "i < 10" for q i
    using that
    by (simp add: create_career_assessment_Inr length_benchmark_Benchmark case_prod_unfold)
  have ne: "benchmark_Benchmark ! i \<noteq> benchmark_Benchmark ! j"
    if "i < 10" and "j < 10" and "i \<noteq> j" for i j
    using that distinct_benchmark_Benchmark
    by (simp add: nth_eq_iff_index_eq length_benchmark_Benchmark)
  have b: "[3.8, 3.2, 4.1, 3.5, 3.9, 3.4, 4.0, 3.7, 4.2, 3.6] = benchmark_Benchmark"
    by (simp add: benchmark_Benchmark_def)
  show ?thesis
    unfolding b using assms nth ne
    by (simp add: create_career_assessment_Inr)
qed

theorem create_career_assessment_pairs_by_position_witness:
  "length initial_ratings = 10 \<and> length swapped_ratings = 10
   \<and> fst (initial_ratings ! 0) = fst (swapped_ratings ! 1)
   \<and> Media_de_Mercado (projr (create_career_assessment initial_ratings) ! 0) = 3.8
   \<and> Media_de_Mercado (projr (create_career_assessment initial_ratings) ! 0)
       \<noteq> Media_de_Mercado (projr (create_career_assessment swapped_ratings) ! 1)"
proof -
  have k: "fst (initial_ratings ! 0) = fst (swapped_ratings ! 1)"
    by (simp add: swapped_ratings_def)
  have "(0::nat) < 10" and "(1::nat) < 10" and "(0::nat) \<noteq> 1"
    by simp_all
  with k create_career_assessment_pairs_by_position
         [OF length_initial_ratings length_swapped_ratings]
  show ?thesis
    using length_initial_ratings length_swapped_ratings by (metis nth_Cons_0)
qed

lemma double_half: "double 0.5 = 0.5"
  by (simp add: eval_double)

lemma strengths_examples:
  "fsub (Fin 4.5) (Fin 3.8) = Fin (788129934789837 / 2 ^ 50)"
  "fsub (Fin 3.8) (Fin 3.8) = Fin 0"
  "fsub (Fin 4.0) (Fin 3.5) = Fin 0.5"
  "fsub (Fin 4.4) (Fin 3.9) = Fin (2251799813685250 / 2 ^ 52)"
  by (simp_all add: eval_float)

lemma flt_half_examples:
  "flt (Fin 0.5) (Fin (788129934789837 / 2 ^ 50))"
  "\<not> flt (Fin 0.5) (Fin 0)"
  "\<not> flt (Fin 0.5) (Fin 0.5)"
  "flt (Fin 0.5) (Fin (2251799813685250 / 2 ^ 52))"
  "flt (Fin 0.5) (Fin 0.7)"
  by (simp_all add: eval_double)

text \<open>
  C9. The differential of every line is the float difference of its self-rating and its
  market average, the double nearest to the difference of the two doubles, with no
  further rounding step, and the strengths are exactly the lines whose differential is
  strictly above 0.5, in the order of the table. A differential of 0.7 is kept; one of
  0.0 and one of exactly 0.5 are not. A rating of 4.5 against 3.8 gives the
  differential 0.7000000000000002 and is a strength; 4.0 against 3.5 gives exactly 0.5
  and is none; 4.4 against 3.9 gives 0.5000000000000004, above 0.5, and is a strength.
\<close>

theorem strengths_above_half:
  "map Diferencial (with_diferencial df)
     = map (\<lambda>r. fsub (Fin (Sua_Avaliacao r)) (Fin (Media_de_Mercado r))) df
   \<and> map Diferencial (with_diferencial df)
     = map (\<lambda>r. fl (double (Sua_Avaliacao r) - double (Media_de_Mercado r))) df
   \<and> map Competencia (with_diferencial df) = map Competencia df
   \<and> strengths (with_diferencial df)
       = with_diferencial
           (filter (\<lambda>r. flt (Fin 0.5) (fsub (Fin (Sua_Avaliacao r)) (Fin (Media_de_Mercado r)))) df)
   \<and> subseq (strengths d) d
   \<and> set (strengths d) = {r. r \<in> set d \<and> flt (Fin 0.5) (Diferencial r)}
   \<and> flt (Fin 0.5) (Fin x) = (1 / 2 < double x)
   \<and> with_diferencial
        [\<lparr>Competencia = c1, Sua_Avaliacao = 4.5, Media_de_Mercado = 3.8\<rparr>,
         \<lparr>Competencia = c2, Sua_Avaliacao = 3.8, Media_de_Mercado = 3.8\<rparr>,
         \<lparr>Competencia = c3, Sua_Avaliacao = 4.0, Media_de_Mercado = 3.5\<rparr>,
         \<lparr>Competencia = c4, Sua_Avaliacao = 4.4, Media_de_Mercado = 3.9\<rparr>]
       = [\<lparr>Competencia = c1, Sua_Avaliacao = 4.5, Media_de_Mercado = 3.8,
           Diferencial = Fin (788129934789837 / 2 ^ 50)\<rparr>,
          \<lparr>Competencia = c2, Sua_Avaliacao = 3.8, Media_de_Mercado = 3.8, Diferencial = Fin 0\<rparr>,
          \<lparr>Competencia = c3, Sua_Avaliacao = 4.0, Media_de_Mercado = 3.5, Diferencial = Fin 0.5\<rparr>,
          \<lparr>Competencia = c4, Sua_Avaliacao = 4.4, Media_de_Mercado = 3.9,
           Diferencial = Fin (2251799813685250 / 2 ^ 52)\<rparr>]
   \<and> strengths
        (with_diferencial
          [\<lparr>Competencia = c1, Sua_Avaliacao = 4.5, Media_de_Mercado = 3.8\<rparr>,
           \<lparr>Competencia = c2, Sua_Avaliacao = 3.8, Media_de_Mercado = 3.8\<rparr>,
           \<lparr>Competencia = c3, Sua_Avaliacao = 4.0, Media_de_Mercado = 3.5\<rparr>,
           \<lparr>Competencia = c4, Sua_Avaliacao = 4.4, Media_de_Mercado = 3.9\<rparr>])
       = [\<lparr>Competencia = c1, Sua_Avaliacao = 4.5, Media_de_Mercado = 3.8,
           Diferencial = Fin (788129934789837 / 2 ^ 50)\<rparr>,
          \<lparr>Competencia = c4, Sua_Avaliacao = 4.4, Media_de_Mercado = 3.9,
           Diferencial = Fin (2251799813685250 / 2 ^ 52)\<rparr>]
   \<and> strengths
        [\<lparr>Competencia = c1, Sua_Avaliacao = s1, Media_de_Mercado = m1, Diferencial = Fin 0.7\<rparr>,
         \<lparr>Competencia = c2, Sua_Avaliacao = s2, Media_de_Mercado = m2, Diferencial = Fin 0.0\<rparr>,
         \<lparr>Competencia = c3, Sua_Avaliacao = s3, Media_de_Mercado = m3, Diferencial = Fin 0.5\<rparr>]
       = [\<lparr>Competencia = c1, Sua_Avaliacao = s1, Media_de_Mercado = m1, Diferencial = Fin 0.7\<rparr>]"
proof -
  have 1: "map Diferencial (with_diferencial df)
     = map (\<lambda>r. fsub (Fin (Sua_Avaliacao r)) (Fin (Media_de_Mercado r))) df"
    by (simp add: with_diferencial_def comp_def)
  have 2: "map Diferencial (with_diferencial df)
     = map (\<lambda>r. fl (double (Sua_Avaliacao r) - double (Media_de_Mercado r))) df"
    by (simp add: with_diferencial_def comp_def)
  have 3: "map Competencia (with_diferencial df) = map Competencia df"
    by (simp add: with_diferencial_def comp_def)
  have 4: "strengths (with_diferencial df)
       = with_diferencial
           (filter (\<lambda>r. flt (Fin 0.5) (fsub (Fin (Sua_Avaliacao r)) (Fin (Media_de_Mercado r)))) df)"
    by (simp add: strengths_def with_diferencial_def filter_map comp_def del: fsub.simps)
  have 5: "subseq (strengths d) d"
    by (simp add: strengths_def)
  have 6: "set (strengths d) = {r. r \<in> set d \<and> flt (Fin 0.5) (Diferencial r)}"
    by (auto simp: strengths_def)
  have 7: "flt (Fin 0.5) (Fin x) = (1 / 2 < double x)"
  proof -
    have "flt (Fin 0.5) (Fin x) = (double 0.5 < double x)"
      by (simp only: flt.simps)
    also have "double 0.5 = (1 / 2 :: real)"
      unfolding double_half by simp
    finally show ?thesis .
  qed
  have 8: "with_diferencial
        [\<lparr>Competencia = c1, Sua_Avaliacao = 4.5, Media_de_Mercado = 3.8\<rparr>,
         \<lparr>Competencia = c2, Sua_Avaliacao = 3.8, Media_de_Mercado = 3.8\<rparr>,
         \<lparr>Competencia = c3, Sua_Avaliacao = 4.0, Media_de_Mercado = 3.5\<rparr>,
         \<lparr>Competencia = c4, Sua_Avaliacao = 4.4, Media_de_Mercado = 3.9\<rparr>]
       = [\<lparr>Competencia = c1, Sua_Avaliacao = 4.5, Media_de_Mercado = 3.8,
           Diferencial = Fin (788129934789837 / 2 ^ 50)\<rparr>,
          \<lparr>Competencia = c2, Sua_Avaliacao = 3.8, Media_de_Mercado = 3.8, Diferencial = Fin 0\<rparr>,
          \<lparr>Competencia = c3, Sua_Avaliacao = 4.0, Media_de_Mercado = 3.5, Diferencial = Fin 0.5\<rparr>,
          \<lparr>Competencia = c4, Sua_Avaliacao = 4.4, Media_de_Mercado = 3.9,
           Diferencial = Fin (2251799813685250 / 2 ^ 52)\<rparr>]"
    using strengths_examples by (simp add: with_diferencial_def del: fsub.simps)
  have 9: "strengths
        [\<lparr>Competencia = c1, Sua_Avaliacao = 4.5, Media_de_Mercado = 3.8,
           Diferencial = Fin (788129934789837 / 2 ^ 50)\<rparr>,
          \<lparr>Competencia = c2, Sua_Avaliacao = 3.8, Media_de_Mercado = 3.8, Diferencial = Fin 0\<rparr>,
          \<lparr>Competencia = c3, Sua_Avaliacao = 4.0, Media_de_Mercado = 3.5, Diferencial = Fin 0.5\<rparr>,
          \<lparr>Competencia = c4, Sua_Avaliacao = 4.4, Media_de_Mercado = 3.9,
           Diferencial = Fin (2251799813685250 / 2 ^ 52)\<rparr>]
       = [\<lparr>Competencia = c1, Sua_Avaliacao = 4.5, Media_de_Mercado = 3.8,
           Diferencial = Fin (788129934789837 / 2 ^ 50)\<rparr>,
          \<lparr>Competencia = c4, Sua_Avaliacao = 4.4, Media_de_Mercado = 3.9,
           Diferencial = Fin (2251799813685250 / 2 ^ 52)\<rparr>]"
    using flt_half_examples by (simp add: strengths_def del: flt.simps)
  have 10: "strengths
        [\<lparr>Competencia = c1, Sua_Avaliacao = s1, Media_de_Mercado = m1, Diferencial = Fin 0.7\<rparr>,
         \<lparr>Competencia = c2, Sua_Avaliacao = s2, Media_de_Mercado = m2, Diferencial = Fin 0.0\<rparr>,
         \<lparr>Competencia = c3, Sua_Avaliacao = s3, Media_de_Mercado = m3, Diferencial = Fin 0.5\<rparr>]
       = [\<lparr>Competencia = c1, Sua_Avaliacao = s1, Media_de_Mercado = m1, Diferencial = Fin 0.7\<rparr>]"
    using flt_half_examples by (simp add: strengths_def del: flt.simps)
  show ?thesis
    unfolding 8 9 using 1 2 3 4 5 6 7 10 by (intro conjI) (assumption | rule refl)+
qed

end
